(* ===== verification/Prelude.thy ===== *)
theory Prelude
  imports Complex_Main "HOL-Library.Word"
begin

text \<open>
  Shared vocabulary of the development: the C integer types the program uses
  (\<open>int\<close> is 32 bits, \<open>size_t\<close> is 64 bits on the LP64 targets the benchmark is
  built for), the C conversions between them, the error monad in which every
  fatal \<open>CHECK_CUDA\<close>/\<open>CHECK_CUBLAS\<close> abort is a value.
\<close>

named_theorems c_conv_simps "evaluation rules of the C integer conversions"
named_theorems ebind_simps "evaluation rules of the error monad"

type_synonym c_int = "32 word"
type_synonym size_t = "64 word"

section \<open>C integer conversions\<close>

text \<open>
  \<open>int x = (size_t) n\<close> and \<open>int x = (long) v\<close>: the conversion to a signed type
  that cannot hold the value is implementation-defined in C; GCC and Clang reduce
  modulo \<open>2^32\<close> and read the bits as two's complement, which is \<open>sint\<close> of the
  truncated word.
\<close>

definition c_int_of_int :: "int \<Rightarrow> int" where
  "c_int_of_int v = sint (word_of_int v :: c_int)"

definition c_int_of_nat :: "nat \<Rightarrow> int" where
  "c_int_of_nat n = sint (word_of_nat n :: c_int)"

text \<open>\<open>(size_t) i\<close> for a C \<open>int i\<close>: reduction modulo \<open>2^64\<close>.\<close>

definition size_t_of_int :: "int \<Rightarrow> size_t" where
  "size_t_of_int i = word_of_int i"

section \<open>Fatal errors as values\<close>

text \<open>
  Sequencing of fallible steps: the first \<open>Inl\<close> stops the computation, as
  \<open>exit(-1)\<close> inside a \<open>CHECK_*\<close> macro stops the process.
\<close>

definition ebind :: "'e + 'a \<Rightarrow> ('a \<Rightarrow> 'e + 'b) \<Rightarrow> 'e + 'b" where
  "ebind m f = (case m of Inl e \<Rightarrow> Inl e | Inr a \<Rightarrow> f a)"

section \<open>Facts about the conversions and the error monad\<close>

lemma c_int_of_int_id [c_conv_simps]:
  "- (2 ^ 31) \<le> v \<Longrightarrow> v < 2 ^ 31 \<Longrightarrow> c_int_of_int v = v"
  by (simp add: c_int_of_int_def signed_of_int signed_take_bit_int_eq_self)

lemma c_int_of_nat_id [c_conv_simps]:
  "n < 2 ^ 31 \<Longrightarrow> c_int_of_nat n = int n"
  by (simp add: c_int_of_nat_def signed_of_nat signed_take_bit_int_eq_self)

lemma c_int_of_nat_wrap [c_conv_simps]:
  "2 ^ 31 \<le> n \<Longrightarrow> n < 2 ^ 32 \<Longrightarrow> c_int_of_nat n = int n - 2 ^ 32"
proof -
  assume lo: "2 ^ 31 \<le> n" and hi: "n < 2 ^ 32"
  have "take_bit 32 (int n) = int n" using hi by (simp add: take_bit_int_eq_self)
  moreover have "bit (int n) 31"
  proof -
    have "n div 2 ^ 31 = 1" using lo hi by (intro div_nat_eqI) simp_all
    then have "bit n 31" by (simp add: bit_iff_odd)
    then show ?thesis by (simp add: bit_of_nat_iff)
  qed
  ultimately show ?thesis
    by (simp add: c_int_of_nat_def signed_of_nat signed_take_bit_eq_take_bit_minus)
qed

lemma c_int_of_int_range:
  "- (2 ^ 31) \<le> c_int_of_int v \<and> c_int_of_int v < 2 ^ 31"
  unfolding c_int_of_int_def
  using sint_ge [where 'a = 32] sint_lt [where 'a = 32] by simp

lemma ebind_Inl [simp, ebind_simps]: "ebind (Inl e) f = Inl e"
  by (simp add: ebind_def)

lemma ebind_Inr [simp, ebind_simps]: "ebind (Inr a) f = f a"
  by (simp add: ebind_def)

lemma ebind_eq_Inr [ebind_simps]:
  "ebind m f = Inr b \<longleftrightarrow> (\<exists>a. m = Inr a \<and> f a = Inr b)"
  by (cases m) simp_all

lemma ebind_eq_Inl [ebind_simps]:
  "ebind m f = Inl e \<longleftrightarrow> m = Inl e \<or> (\<exists>a. m = Inr a \<and> f a = Inl e)"
  by (cases m) simp_all

end
