(* ===== verification/Clock.thy ===== *)
theory Clock
  imports Prelude
begin

text \<open>
  The benchmark's timer, \<open>get_time\<close> (lines 28--32): \<open>gettimeofday\<close> fills a
  \<open>struct timeval\<close> and the function returns \<open>tv_sec + tv_usec * 1e-6\<close>
  seconds. \<open>gettimeofday\<close> is wall-clock time, which the system may set
  backwards: nothing here assumes that successive readings grow. The sum is
  the exact real; a \<open>double\<close> rounds it (from \<open>tv_sec \<ge> 2^33\<close> on, to a
  grid coarser than a microsecond), which no theorem of the development
  depends on beyond monotonicity.
\<close>

record timeval =
  tv_sec :: int
  tv_usec :: int

definition get_time :: "timeval \<Rightarrow> real" where
  "get_time tv = real_of_int (tv_sec tv) + real_of_int (tv_usec tv) * 0.000001"

end
