(* ===== verification/Runtime.thy ===== *)
theory Runtime
  imports Clock
begin

text \<open>
  The program's boundary with the CUDA runtime, cuBLASXt and the system clock.
  \<^item> \<open>CHECK_CUDA\<close> and \<open>CHECK_CUBLAS\<close> (lines 12--26): a status other than
    success (\<open>cudaSuccess\<close> and \<open>CUBLAS_STATUS_SUCCESS\<close> are both 0) prints the
    status and the line of the call and ends the process with \<open>exit(-1)\<close>;
    here the check returns the error value \<open>fatal\<close> with that status and line.
    \<open>Memory_Fault l\<close> is a store out of bounds at line \<open>l\<close>: undefined
    behaviour, at best a crash. \<open>Length_Error l\<close> is a \<open>std::length_error\<close>
    thrown by a \<open>std::vector\<close> constructor at line \<open>l\<close>; nothing catches it,
    so \<open>std::terminate\<close> aborts the process.
  \<^item> A \<open>world\<close> holds the answers of the libraries: the \<open>k\<close>-th call of
    \<open>gettimeofday\<close>, of \<open>cublasXtSgemm\<close> (for the dimension it is given) and of
    \<open>cudaDeviceSynchronize\<close> return \<open>clock w k\<close>, \<open>gemm_status w N k\<close> and
    \<open>sync_status w k\<close>. The record is extended in theory \<open>Benchmark\<close> by the
    answers of the setup calls.
  \<^item> A \<open>machine\<close> counts the calls made so far, which selects the next answer,
    and holds the latency vector of the benchmark.
\<close>

datatype fatal = Cuda_Error int nat | Cublas_Error int nat | Memory_Fault nat | Length_Error nat

definition check_cuda :: "nat \<Rightarrow> int \<Rightarrow> fatal + unit" where
  "check_cuda line status = (if status = 0 then Inr () else Inl (Cuda_Error status line))"

definition check_cublas :: "nat \<Rightarrow> int \<Rightarrow> fatal + unit" where
  "check_cublas line status = (if status = 0 then Inr () else Inl (Cublas_Error status line))"

record world =
  clock :: "nat \<Rightarrow> timeval"
  gemm_status :: "int \<Rightarrow> nat \<Rightarrow> int"
  sync_status :: "nat \<Rightarrow> int"

record machine =
  clock_reads :: nat
  gemm_calls :: nat
  sync_calls :: nat
  latencies :: "real list"

text \<open>\<open>get_time()\<close>: the next clock reading.\<close>

definition call_get_time :: "'w world_scheme \<Rightarrow> machine \<Rightarrow> real \<times> machine" where
  "call_get_time w m =
     (get_time (clock w (clock_reads m)), m\<lparr>clock_reads := Suc (clock_reads m)\<rparr>)"

text \<open>\<open>cublasXtSgemm(handle, N, N, N, ...)\<close>: the status of the next call.\<close>

definition call_sgemm :: "'w world_scheme \<Rightarrow> int \<Rightarrow> machine \<Rightarrow> int \<times> machine" where
  "call_sgemm w N m = (gemm_status w N (gemm_calls m), m\<lparr>gemm_calls := Suc (gemm_calls m)\<rparr>)"

text \<open>
  \<open>cudaDeviceSynchronize();\<close> as a statement: the call is made and its status
  is discarded.
\<close>

definition call_sync :: "'w world_scheme \<Rightarrow> machine \<Rightarrow> machine" where
  "call_sync w m = (let _ = sync_status w (sync_calls m) in m\<lparr>sync_calls := Suc (sync_calls m)\<rparr>)"

text \<open>The clock assumptions under which the timed loop is studied.\<close>

definition clock_mono :: "'w world_scheme \<Rightarrow> bool" where
  "clock_mono w \<longleftrightarrow> (\<forall>i j. i \<le> j \<longrightarrow> get_time (clock w i) \<le> get_time (clock w j))"

definition clock_unbounded :: "'w world_scheme \<Rightarrow> bool" where
  "clock_unbounded w \<longleftrightarrow> (\<forall>b. \<exists>k. b \<le> get_time (clock w k))"

text \<open>A clock that advances by at least \<open>\<delta>\<close> seconds from one reading to the next.\<close>

definition clock_advances :: "'w world_scheme \<Rightarrow> real \<Rightarrow> bool" where
  "clock_advances w \<delta> \<longleftrightarrow> (\<forall>k. get_time (clock w k) + \<delta> \<le> get_time (clock w (Suc k)))"

lemma check_success [simp]: "check_cublas l 0 = Inr ()" "check_cuda l 0 = Inr ()"
  by (simp_all add: check_cublas_def check_cuda_def)

lemma check_cublas_Inr [simp]: "check_cublas l s = Inr u \<longleftrightarrow> s = 0"
  by (simp add: check_cublas_def)

lemma check_cuda_Inr [simp]: "check_cuda l s = Inr u \<longleftrightarrow> s = 0"
  by (simp add: check_cuda_def)

lemma check_cublas_Inl [simp]: "check_cublas l s = Inl e \<longleftrightarrow> s \<noteq> 0 \<and> e = Cublas_Error s l"
  by (auto simp: check_cublas_def)

lemma check_cuda_Inl [simp]: "check_cuda l s = Inl e \<longleftrightarrow> s \<noteq> 0 \<and> e = Cuda_Error s l"
  by (auto simp: check_cuda_def)

lemma clock_mono_le:
  "clock_mono w \<Longrightarrow> i \<le> j \<Longrightarrow> get_time (clock w i) \<le> get_time (clock w j)"
  by (simp add: clock_mono_def)

lemmas call_simps = call_get_time_def call_sgemm_def call_sync_def

lemma clock_advances_ge:
  assumes "clock_advances w \<delta>"
  shows "get_time (clock w r) + real j * \<delta> \<le> get_time (clock w (r + j))"
proof (induction j)
  case 0
  then show ?case by simp
next
  case (Suc j)
  have "get_time (clock w (r + j)) + \<delta> \<le> get_time (clock w (Suc (r + j)))"
    using assms by (simp add: clock_advances_def)
  with Suc show ?case by (simp add: algebra_simps)
qed

lemma clock_advances_mono: "clock_advances w \<delta> \<Longrightarrow> 0 \<le> \<delta> \<Longrightarrow> clock_mono w"
  unfolding clock_mono_def
proof (intro allI impI)
  fix i j :: nat
  assume adv: "clock_advances w \<delta>" and d: "0 \<le> \<delta>" and ij: "i \<le> j"
  have "get_time (clock w i) + real (j - i) * \<delta> \<le> get_time (clock w (i + (j - i)))"
    using adv by (rule clock_advances_ge)
  moreover have "0 \<le> real (j - i) * \<delta>" using d by simp
  ultimately show "get_time (clock w i) \<le> get_time (clock w j)" using ij by simp
qed

lemma clock_advances_unbounded: "clock_advances w \<delta> \<Longrightarrow> 0 < \<delta> \<Longrightarrow> clock_unbounded w"
  unfolding clock_unbounded_def
proof
  fix b :: real
  assume adv: "clock_advances w \<delta>" and d: "0 < \<delta>"
  define k where "k = nat \<lceil>(b - get_time (clock w 0)) / \<delta>\<rceil>"
  have "(b - get_time (clock w 0)) / \<delta> \<le> real k" unfolding k_def by linarith
  then have "b - get_time (clock w 0) \<le> real k * \<delta>" using d by (simp add: divide_le_eq)
  moreover have "get_time (clock w 0) + real k * \<delta> \<le> get_time (clock w (0 + k))"
    using adv by (rule clock_advances_ge)
  ultimately show "\<exists>k. b \<le> get_time (clock w k)" by (intro exI [of _ k]) simp
qed

end
