(* ===== verification/Sampling.thy ===== *)
theory Sampling
  imports Runtime
begin

text \<open>
  The measurement phase of \<open>main\<close>: the warm-up call (lines 63--66), the start
  of the measurement (lines 68--69) and the timed loop (lines 70--75).
\<close>

definition warm_up :: "'w world_scheme \<Rightarrow> int \<Rightarrow> machine \<Rightarrow> fatal + machine" where
  "warm_up w N m =
     (let (st, m1) = call_sgemm w N m
      in ebind (check_cublas 65 st) (\<lambda>_. Inr (call_sync w m1)))"

text \<open>One iteration, lines 71--74: time one synchronised GEMM and push the latency.\<close>

definition sample_body :: "'w world_scheme \<Rightarrow> int \<Rightarrow> machine \<Rightarrow> fatal + machine" where
  "sample_body w N m =
     (let (t0, m1) = call_get_time w m;
          (st, m2) = call_sgemm w N m1
      in ebind (check_cublas 72 st)
           (\<lambda>_. let m3 = call_sync w m2;
                    (t1, m4) = call_get_time w m3
                in Inr (m4\<lparr>latencies := latencies m4 @ [t1 - t0]\<rparr>)))"

text \<open>
  Line 70, \<open>while ((get_time() - start_test) < duration)\<close>: the guard reads the
  clock before every iteration and once more at the end. The loop need not
  end (a clock that stops), so it is a \<open>partial_function (option)\<close>: \<open>None\<close>
  is a run that never leaves the loop.
\<close>

partial_function (option) sample_loop ::
  "'w world_scheme \<Rightarrow> int \<Rightarrow> real \<Rightarrow> int \<Rightarrow> machine \<Rightarrow> (fatal + machine) option" where
  "sample_loop w N start dur m =
     (let (now, m1) = call_get_time w m
      in if now - start < real_of_int dur
         then (case sample_body w N m1 of
                 Inl e \<Rightarrow> Some (Inl e)
               | Inr m2 \<Rightarrow> sample_loop w N start dur m2)
         else Some (Inr m1))"

text \<open>Lines 68--75: an empty latency vector, the start time, the loop.\<close>

definition measure_phase ::
  "'w world_scheme \<Rightarrow> int \<Rightarrow> int \<Rightarrow> machine \<Rightarrow> (fatal + machine) option" where
  "measure_phase w N dur m =
     (let (start, m1) = call_get_time w (m\<lparr>latencies := []\<rparr>)
      in sample_loop w N start dur m1)"


section \<open>The loop's specification\<close>

text \<open>
  What the loop promises, stated over the clock readings: iteration \<open>i\<close>
  reads the guard's clock at \<open>r + 3 i\<close>, the start of its GEMM at
  \<open>r + 3 i + 1\<close> and its end at \<open>r + 3 i + 2\<close>, where \<open>r\<close> is the number of
  readings before the loop. The loop runs \<open>k\<close> full iterations while the
  guard holds and the GEMM succeeds, and then either stops at a failing guard
  or aborts at a failing GEMM.
\<close>

definition guard_ok :: "'w world_scheme \<Rightarrow> real \<Rightarrow> int \<Rightarrow> nat \<Rightarrow> bool" where
  "guard_ok w start dur j \<longleftrightarrow> get_time (clock w j) - start < real_of_int dur"

definition loop_samples :: "'w world_scheme \<Rightarrow> nat \<Rightarrow> nat \<Rightarrow> real list" where
  "loop_samples w r k =
     map (\<lambda>i. get_time (clock w (r + 3 * i + 2)) - get_time (clock w (r + 3 * i + 1))) [0..<k]"

definition iter_state :: "'w world_scheme \<Rightarrow> machine \<Rightarrow> nat \<Rightarrow> machine" where
  "iter_state w m k =
     m\<lparr>clock_reads := clock_reads m + 3 * k, gemm_calls := gemm_calls m + k,
       sync_calls := sync_calls m + k,
       latencies := latencies m @ loop_samples w (clock_reads m) k\<rparr>"

definition iter_ok :: "'w world_scheme \<Rightarrow> int \<Rightarrow> real \<Rightarrow> int \<Rightarrow> machine \<Rightarrow> nat \<Rightarrow> bool" where
  "iter_ok w N start dur m k \<longleftrightarrow>
     (\<forall>i<k. guard_ok w start dur (clock_reads m + 3 * i) \<and> gemm_status w N (gemm_calls m + i) = 0)"

definition loop_exit ::
  "'w world_scheme \<Rightarrow> int \<Rightarrow> real \<Rightarrow> int \<Rightarrow> machine \<Rightarrow> fatal + machine \<Rightarrow> bool" where
  "loop_exit w N start dur s r \<longleftrightarrow>
     (case r of
        Inr m' \<Rightarrow> \<not> guard_ok w start dur (clock_reads s) \<and>
                 m' = s\<lparr>clock_reads := Suc (clock_reads s)\<rparr>
      | Inl e \<Rightarrow> guard_ok w start dur (clock_reads s) \<and> gemm_status w N (gemm_calls s) \<noteq> 0 \<and>
                e = Cublas_Error (gemm_status w N (gemm_calls s)) 72)"

definition loop_spec ::
  "'w world_scheme \<Rightarrow> int \<Rightarrow> real \<Rightarrow> int \<Rightarrow> machine \<Rightarrow> fatal + machine \<Rightarrow> bool" where
  "loop_spec w N start dur m r \<longleftrightarrow>
     (\<exists>k. iter_ok w N start dur m k \<and> loop_exit w N start dur (iter_state w m k) r)"

text \<open>Two worlds used by the witnesses: a clock ticking one second per reading, and a stopped clock.\<close>

definition tick_world :: world where
  "tick_world = \<lparr>clock = (\<lambda>k. \<lparr>tv_sec = int k, tv_usec = 0\<rparr>), gemm_status = (\<lambda>_ _. 0),
                 sync_status = (\<lambda>_. 0)\<rparr>"

definition frozen_world :: world where
  "frozen_world = \<lparr>clock = (\<lambda>k. \<lparr>tv_sec = 100, tv_usec = 0\<rparr>), gemm_status = (\<lambda>_ _. 0),
                   sync_status = (\<lambda>_. 0)\<rparr>"

definition machine0 :: machine where
  "machine0 = \<lparr>clock_reads = 0, gemm_calls = 0, sync_calls = 0, latencies = []\<rparr>"

section \<open>Unfolding the loop\<close>

lemma loop_samples_Suc:
  "loop_samples w r (Suc k) =
   (get_time (clock w (r + 2)) - get_time (clock w (r + 1))) # loop_samples w (r + 3) k"
  by (simp add: loop_samples_def upt_conv_Cons map_Suc_upt [symmetric] del: upt_Suc)

lemma loop_samples_0 [simp]: "loop_samples w r 0 = []"
  by (simp add: loop_samples_def)

lemma iter_state_0 [simp]: "iter_state w m 0 = m"
  by (simp add: iter_state_def loop_samples_def)

lemma sample_body_eq:
  "sample_body w N m =
   (if gemm_status w N (gemm_calls m) = 0
    then Inr (m\<lparr>clock_reads := clock_reads m + 2, gemm_calls := Suc (gemm_calls m),
                sync_calls := Suc (sync_calls m),
                latencies := latencies m @
                  [get_time (clock w (Suc (clock_reads m))) - get_time (clock w (clock_reads m))]\<rparr>)
    else Inl (Cublas_Error (gemm_status w N (gemm_calls m)) 72))"
  by (simp add: sample_body_def call_simps check_cublas_def Let_def)

lemma sample_loop_unfold:
  "sample_loop w N start dur m =
   (if guard_ok w start dur (clock_reads m)
    then (case sample_body w N (m\<lparr>clock_reads := Suc (clock_reads m)\<rparr>) of
            Inl e \<Rightarrow> Some (Inl e)
          | Inr m2 \<Rightarrow> sample_loop w N start dur m2)
    else Some (Inr (m\<lparr>clock_reads := Suc (clock_reads m)\<rparr>)))"
  by (subst sample_loop.simps) (simp add: call_get_time_def guard_ok_def)

lemma sample_loop_stop:
  "\<not> guard_ok w start dur (clock_reads m) \<Longrightarrow>
   sample_loop w N start dur m = Some (Inr (m\<lparr>clock_reads := Suc (clock_reads m)\<rparr>))"
  by (simp add: sample_loop_unfold)

lemma sample_loop_fail:
  "guard_ok w start dur (clock_reads m) \<Longrightarrow> gemm_status w N (gemm_calls m) \<noteq> 0 \<Longrightarrow>
   sample_loop w N start dur m = Some (Inl (Cublas_Error (gemm_status w N (gemm_calls m)) 72))"
  by (simp add: sample_loop_unfold sample_body_eq)

lemma sample_loop_step:
  "guard_ok w start dur (clock_reads m) \<Longrightarrow> gemm_status w N (gemm_calls m) = 0 \<Longrightarrow>
   sample_loop w N start dur m = sample_loop w N start dur (iter_state w m 1)"
  by (subst sample_loop_unfold) (simp add: sample_body_eq iter_state_def loop_samples_def numeral_3_eq_3)

lemma iter_state_Suc:
  "iter_state w (iter_state w m 1) k = iter_state w m (Suc k)"
  by (simp add: iter_state_def loop_samples_Suc One_nat_def add.assoc)

lemma iter_state_reads [simp]: "clock_reads (iter_state w m k) = clock_reads m + 3 * k"
  by (simp add: iter_state_def)

lemma iter_state_gemm [simp]: "gemm_calls (iter_state w m k) = gemm_calls m + k"
  by (simp add: iter_state_def)


lemma guard_ok_before_bound:
  assumes mono: "clock_mono w" and K: "start + real_of_int dur \<le> get_time (clock w K)"
    and g: "guard_ok w start dur j"
  shows "j < K"
proof (rule ccontr)
  assume "\<not> j < K"
  then have "get_time (clock w K) \<le> get_time (clock w j)" by (simp add: clock_mono_le [OF mono])
  with K g show False by (simp add: guard_ok_def)
qed

lemma sample_loop_returns:
  assumes mono: "clock_mono w" and unb: "clock_unbounded w"
  shows "\<exists>r. sample_loop w N start dur m = Some r"
proof -
  obtain K where K: "start + real_of_int dur \<le> get_time (clock w K)"
    using unb unfolding clock_unbounded_def by blast
  show ?thesis
  proof (induction "K - clock_reads m" arbitrary: m rule: less_induct)
    case less
    show ?case
    proof (cases "guard_ok w start dur (clock_reads m)")
      case False
      then show ?thesis by (simp add: sample_loop_stop)
    next
      case g: True
      show ?thesis
      proof (cases "gemm_status w N (gemm_calls m) = 0")
        case False
        with g show ?thesis by (simp add: sample_loop_fail)
      next
        case True
        have "clock_reads m < K" using guard_ok_before_bound [OF mono K g] .
        then have "K - clock_reads (iter_state w m 1) < K - clock_reads m" by simp
        then obtain r where "sample_loop w N start dur (iter_state w m 1) = Some r"
          using less.hyps by blast
        with g True show ?thesis by (simp add: sample_loop_step)
      qed
    qed
  qed
qed

lemma iter_ok_Suc:
  "iter_ok w N start dur m (Suc k) \<longleftrightarrow>
   guard_ok w start dur (clock_reads m) \<and> gemm_status w N (gemm_calls m) = 0 \<and>
   iter_ok w N start dur (iter_state w m 1) k"
  by (simp add: iter_ok_def All_less_Suc2 add.assoc)

lemma loop_spec_step:
  assumes g: "guard_ok w start dur (clock_reads m)" and ok: "gemm_status w N (gemm_calls m) = 0"
    and spec: "loop_spec w N start dur (iter_state w m 1) r"
  shows "loop_spec w N start dur m r"
proof -
  from spec obtain k where ok1: "iter_ok w N start dur (iter_state w m 1) k"
    and ex1: "loop_exit w N start dur (iter_state w (iter_state w m 1) k) r"
    unfolding loop_spec_def by blast
  from g ok ok1 have "iter_ok w N start dur m (Suc k)"
    by (simp only: iter_ok_Suc)
  moreover from ex1 have "loop_exit w N start dur (iter_state w m (Suc k)) r"
    by (simp only: iter_state_Suc)
  ultimately show ?thesis unfolding loop_spec_def by blast
qed

lemma sample_loop_spec:
  assumes ret: "sample_loop w N start dur m = Some r"
  shows "loop_spec w N start dur m r"
proof (rule sample_loop.raw_induct [where P = "\<lambda>w N start dur m r. loop_spec w N start dur m r", OF _ ret])
  fix f w N start dur m r
  assume IH: "\<And>w N start dur m r. f w N start dur m = Some r \<Longrightarrow> loop_spec w N start dur m r"
    and eq: "(let (now, m1) = call_get_time w m
              in if now - start < real_of_int dur
                 then (case sample_body w N m1 of Inl e \<Rightarrow> Some (Inl e) | Inr m2 \<Rightarrow> f w N start dur m2)
                 else Some (Inr m1)) = Some r"
  show "loop_spec w N start dur m r"
  proof (cases "guard_ok w start dur (clock_reads m)")
    case False
    with eq have "r = Inr (m\<lparr>clock_reads := Suc (clock_reads m)\<rparr>)"
      by (simp add: call_get_time_def guard_ok_def)
    with False show ?thesis unfolding loop_spec_def by (intro exI [of _ 0]) (simp add: iter_ok_def loop_exit_def)
  next
    case g: True
    show ?thesis
    proof (cases "gemm_status w N (gemm_calls m) = 0")
      case False
      with g eq have "r = Inl (Cublas_Error (gemm_status w N (gemm_calls m)) 72)"
        by (simp add: call_get_time_def guard_ok_def sample_body_eq)
      with g False show ?thesis unfolding loop_spec_def by (intro exI [of _ 0]) (simp add: iter_ok_def loop_exit_def)
    next
      case True
      with g eq have "f w N start dur (iter_state w m 1) = Some r"
        by (simp add: call_get_time_def guard_ok_def sample_body_eq iter_state_def
            loop_samples_def numeral_3_eq_3)
      then have "loop_spec w N start dur (iter_state w m 1) r" by (rule IH)
      with g True show ?thesis by (rule loop_spec_step)
    qed
  qed
qed


lemma loop_spec_complete:
  assumes "iter_ok w N start dur m k" and "loop_exit w N start dur (iter_state w m k) r"
  shows "sample_loop w N start dur m = Some r"
  using assms
proof (induction k arbitrary: m)
  case 0
  then show ?case
    by (cases r) (auto simp: loop_exit_def sample_loop_stop sample_loop_fail)
next
  case (Suc k)
  from Suc.prems(1) have g: "guard_ok w start dur (clock_reads m)"
    and ok: "gemm_status w N (gemm_calls m) = 0"
    and rest: "iter_ok w N start dur (iter_state w m 1) k"
    by (simp_all add: iter_ok_Suc)
  from Suc.prems(2) have "loop_exit w N start dur (iter_state w (iter_state w m 1) k) r"
    by (simp only: iter_state_Suc)
  with rest have "sample_loop w N start dur (iter_state w m 1) = Some r" by (rule Suc.IH)
  with g ok show ?case by (simp add: sample_loop_step)
qed

lemma loop_spec_sample_loop:
  "loop_spec w N start dur m r \<Longrightarrow> sample_loop w N start dur m = Some r"
  unfolding loop_spec_def using loop_spec_complete by blast

text \<open>Two worlds with the same loop specification give the same loop, returning or not.\<close>

lemma sample_loop_spec_cong:
  assumes "\<And>r. loop_spec w1 N start dur m r \<longleftrightarrow> loop_spec w2 N start dur m r"
  shows "sample_loop w1 N start dur m = sample_loop w2 N start dur m"
proof (cases "sample_loop w2 N start dur m")
  case None
  show ?thesis
  proof (cases "sample_loop w1 N start dur m")
    case (Some r)
    then have "loop_spec w2 N start dur m r" using assms sample_loop_spec by blast
    with None show ?thesis by (simp add: loop_spec_sample_loop)
  qed (simp add: None)
next
  case (Some r)
  then have "loop_spec w1 N start dur m r" using assms sample_loop_spec by blast
  with Some show ?thesis by (simp add: loop_spec_sample_loop)
qed

lemma loop_spec_sync_status:
  "loop_spec (w\<lparr>sync_status := s\<rparr>) N start dur m r = loop_spec w N start dur m r"
proof -
  have "guard_ok (w\<lparr>sync_status := s\<rparr>) = guard_ok w"
    by (simp add: guard_ok_def fun_eq_iff)
  moreover have "iter_state (w\<lparr>sync_status := s\<rparr>) = iter_state w"
    by (simp add: iter_state_def loop_samples_def fun_eq_iff)
  moreover have "loop_exit (w\<lparr>sync_status := s\<rparr>) = loop_exit w"
    by (simp add: loop_exit_def guard_ok_def fun_eq_iff split: sum.split)
  ultimately show ?thesis
    by (simp add: loop_spec_def iter_ok_def)
qed

lemma measure_phase_unfold:
  "measure_phase w N dur m =
   sample_loop w N (get_time (clock w (clock_reads m))) dur
     (m\<lparr>latencies := [], clock_reads := Suc (clock_reads m)\<rparr>)"
  by (simp add: measure_phase_def call_get_time_def)

lemma loop_exit_Inr:
  "loop_exit w N start dur s (Inr m') \<longleftrightarrow>
   \<not> guard_ok w start dur (clock_reads s) \<and> m' = s\<lparr>clock_reads := Suc (clock_reads s)\<rparr>"
  by (simp add: loop_exit_def)

lemma loop_spec_Inr_latencies:
  assumes "loop_spec w N start dur m (Inr m')"
  obtains k where "latencies m' = latencies m @ loop_samples w (clock_reads m) k"
    and "k = 0 \<Longrightarrow> \<not> guard_ok w start dur (clock_reads m)"
proof -
  from assms obtain k where "iter_ok w N start dur m k"
    and ex: "loop_exit w N start dur (iter_state w m k) (Inr m')"
    unfolding loop_spec_def by blast
  from ex have "latencies m' = latencies m @ loop_samples w (clock_reads m) k"
    and "k = 0 \<Longrightarrow> \<not> guard_ok w start dur (clock_reads m)"
    by (auto simp: loop_exit_Inr iter_state_def)
  then show thesis using that by blast
qed

lemma loop_samples_nonneg:
  assumes mono: "clock_mono w" and x: "x \<in> set (loop_samples w r k)"
  shows "0 \<le> x"
proof -
  from x obtain i where "x = get_time (clock w (r + 3 * i + 2)) - get_time (clock w (r + 3 * i + 1))"
    by (auto simp: loop_samples_def)
  moreover have "get_time (clock w (r + 3 * i + 1)) \<le> get_time (clock w (r + 3 * i + 2))"
    by (rule clock_mono_le [OF mono]) simp
  ultimately show ?thesis by simp
qed

lemma loop_spec_Inl:
  "loop_spec w N start dur m (Inl e) \<Longrightarrow>
   \<exists>k. gemm_status w N k \<noteq> 0 \<and> e = Cublas_Error (gemm_status w N k) 72"
  by (auto simp: loop_spec_def loop_exit_def)

lemma measure_phase_Inl:
  "measure_phase w N dur m = Some (Inl e) \<Longrightarrow>
   \<exists>k. gemm_status w N k \<noteq> 0 \<and> e = Cublas_Error (gemm_status w N k) 72"
  by (simp add: measure_phase_unfold) (blast dest: sample_loop_spec loop_spec_Inl)

lemma measure_phase_gemm_count:
  assumes "measure_phase w N dur m = Some (Inr m')"
  shows "gemm_calls m' = gemm_calls m + length (latencies m')"
proof -
  from assms have "loop_spec w N (get_time (clock w (clock_reads m))) dur
      (m\<lparr>latencies := [], clock_reads := Suc (clock_reads m)\<rparr>) (Inr m')"
    by (simp add: measure_phase_unfold sample_loop_spec)
  then obtain k where "iter_ok w N (get_time (clock w (clock_reads m))) dur
      (m\<lparr>latencies := [], clock_reads := Suc (clock_reads m)\<rparr>) k"
    and "loop_exit w N (get_time (clock w (clock_reads m))) dur
      (iter_state w (m\<lparr>latencies := [], clock_reads := Suc (clock_reads m)\<rparr>) k) (Inr m')"
    unfolding loop_spec_def by blast
  then show ?thesis by (simp add: loop_exit_Inr iter_state_def loop_samples_def)
qed

lemma measure_phase_latencies:
  assumes "measure_phase w N dur m = Some (Inr m')"
  obtains k where "latencies m' = loop_samples w (Suc (clock_reads m)) k"
    and "k = 0 \<Longrightarrow> \<not> guard_ok w (get_time (clock w (clock_reads m))) dur (Suc (clock_reads m))"
proof -
  from assms have "loop_spec w N (get_time (clock w (clock_reads m))) dur
      (m\<lparr>latencies := [], clock_reads := Suc (clock_reads m)\<rparr>) (Inr m')"
    by (simp add: measure_phase_unfold sample_loop_spec)
  then show thesis by (rule loop_spec_Inr_latencies) (simp add: that)
qed

lemma measure_phase_guards:
  assumes "measure_phase w N dur m = Some (Inr m')"
  shows "\<exists>k. latencies m' = loop_samples w (Suc (clock_reads m)) k \<and>
             (\<forall>i<k. guard_ok w (get_time (clock w (clock_reads m))) dur (Suc (clock_reads m) + 3 * i))"
proof -
  from assms have "loop_spec w N (get_time (clock w (clock_reads m))) dur
      (m\<lparr>latencies := [], clock_reads := Suc (clock_reads m)\<rparr>) (Inr m')"
    by (simp add: measure_phase_unfold sample_loop_spec)
  then show ?thesis
    by (auto simp: loop_spec_def iter_ok_def loop_exit_Inr iter_state_def)
qed

lemma measure_phase_returns:
  "clock_mono w \<Longrightarrow> clock_unbounded w \<Longrightarrow> \<exists>r. measure_phase w N dur m = Some r"
  using sample_loop_returns by (simp add: measure_phase_unfold)

section \<open>Properties of the measurement phase\<close>

text \<open>
  C7. If the clock never goes back and grows without bound, the measurement
  phase returns: the loop ends by its guard or by a failing GEMM.
\<close>

theorem measure_phase_terminates:
  assumes "clock_mono w" and "clock_unbounded w"
  shows "\<exists>r. measure_phase w N dur m = Some r"
  using assms by (rule measure_phase_returns)

lemma tick_world_mono: "clock_mono tick_world"
  by (simp add: clock_mono_def tick_world_def get_time_def)

lemma tick_world_unbounded: "clock_unbounded tick_world"
  unfolding clock_unbounded_def
proof
  fix b :: real
  have "b \<le> real (nat \<lceil>b\<rceil>)" by (rule real_nat_ceiling_ge)
  then show "\<exists>k. b \<le> get_time (clock tick_world k)"
    by (intro exI [of _ "nat \<lceil>b\<rceil>"]) (simp add: tick_world_def get_time_def)
qed

lemma tick_world_run:
  "measure_phase tick_world 1024 2 machine0 =
   Some (Inr \<lparr>clock_reads = 5, gemm_calls = 1, sync_calls = 1, latencies = [1]\<rparr>)"
  by (simp add: measure_phase_unfold sample_loop_unfold sample_body_eq guard_ok_def
      tick_world_def machine0_def get_time_def)

lemma tick_world_advances: "clock_advances tick_world 1"
  by (simp add: clock_advances_def tick_world_def get_time_def)

theorem measure_phase_terminates_witness:
  "clock_mono tick_world \<and> clock_unbounded tick_world \<and>
   (\<exists>r. measure_phase tick_world 1024 2 machine0 = Some r)"
  using measure_phase_terminates [OF tick_world_mono tick_world_unbounded, of 1024 2 machine0]
    tick_world_mono tick_world_unbounded by simp


text \<open>
  C8. The loop refines its specification exactly: it returns \<open>r\<close> if and only if
  some \<open>k\<close> iterations pass the guard with a successful GEMM, each adding the
  latency read around its GEMM, and then the guard fails (\<open>r\<close> is the state
  after \<open>k\<close> iterations and one more clock reading) or the next GEMM fails
  (\<open>r\<close> is the \<open>CHECK_CUBLAS\<close> error of line 72).
\<close>

theorem sample_loop_iff_spec:
  "sample_loop w N start dur m = Some r \<longleftrightarrow> loop_spec w N start dur m r"
  using sample_loop_spec loop_spec_sample_loop by blast

theorem sample_loop_iff_spec_witness:
  "sample_loop tick_world 1024 0 2 \<lparr>clock_reads = 1, gemm_calls = 0, sync_calls = 0, latencies = []\<rparr> =
     Some (Inr \<lparr>clock_reads = 5, gemm_calls = 1, sync_calls = 1, latencies = [1]\<rparr>) \<and>
   loop_spec tick_world 1024 0 2 \<lparr>clock_reads = 1, gemm_calls = 0, sync_calls = 0, latencies = []\<rparr>
     (Inr \<lparr>clock_reads = 5, gemm_calls = 1, sync_calls = 1, latencies = [1]\<rparr>)"
proof -
  have run: "sample_loop tick_world 1024 0 2 \<lparr>clock_reads = 1, gemm_calls = 0, sync_calls = 0, latencies = []\<rparr> =
     Some (Inr \<lparr>clock_reads = 5, gemm_calls = 1, sync_calls = 1, latencies = [1]\<rparr>)"
    by (simp add: sample_loop_unfold sample_body_eq guard_ok_def tick_world_def get_time_def)
  show ?thesis using run sample_loop_iff_spec [THEN iffD1, OF run] by simp
qed

text \<open>
  C9. With a clock that never goes back, every latency the measurement phase
  records is non-negative.
\<close>

theorem measure_phase_latencies_nonneg:
  assumes mono: "clock_mono w" and ret: "measure_phase w N dur m = Some (Inr m')"
  shows "\<forall>x \<in> set (latencies m'). 0 \<le> x"
proof -
  obtain k where "latencies m' = loop_samples w (Suc (clock_reads m)) k"
    using ret by (rule measure_phase_latencies)
  then show ?thesis using loop_samples_nonneg [OF mono] by simp
qed

theorem measure_phase_latencies_nonneg_witness:
  "clock_mono tick_world \<and>
   measure_phase tick_world 1024 2 machine0 =
     Some (Inr \<lparr>clock_reads = 5, gemm_calls = 1, sync_calls = 1, latencies = [1]\<rparr>) \<and>
   list_all (\<lambda>x. 0 \<le> x) (latencies \<lparr>clock_reads = 5, gemm_calls = 1, sync_calls = 1, latencies = [1::real]\<rparr>)"
  using measure_phase_latencies_nonneg [OF tick_world_mono tick_world_run] tick_world_mono tick_world_run
  by simp

text \<open>
  C10. The loop is a \<open>while\<close>, not a \<open>do-while\<close>: with a clock that never goes
  back and a duration of at most zero, the guard fails at once, no GEMM is
  timed and the latency vector stays empty.
\<close>

theorem nonpositive_duration_no_sample:
  assumes mono: "clock_mono w" and dur: "dur \<le> 0"
  shows "measure_phase w N dur m =
         Some (Inr (m\<lparr>latencies := [], clock_reads := clock_reads m + 2\<rparr>))"
proof -
  have "get_time (clock w (clock_reads m)) \<le> get_time (clock w (Suc (clock_reads m)))"
    by (rule clock_mono_le [OF mono]) simp
  with dur have "\<not> guard_ok w (get_time (clock w (clock_reads m))) dur (Suc (clock_reads m))"
    by (simp add: guard_ok_def)
  then show ?thesis by (simp add: measure_phase_unfold sample_loop_stop)
qed

theorem nonpositive_duration_no_sample_witness:
  "clock_mono tick_world \<and> (0::int) \<le> 0 \<and>
   measure_phase tick_world 1024 0 machine0 =
     Some (Inr \<lparr>clock_reads = 2, gemm_calls = 0, sync_calls = 0, latencies = []\<rparr>)"
  using nonpositive_duration_no_sample [OF tick_world_mono, of 0 1024 machine0] tick_world_mono
  by (simp add: machine0_def)

text \<open>
  C11. When the first guard passes (less than \<open>duration\<close> seconds between the
  start reading and the first guard reading), a run that returns normally has
  at least one sample.
\<close>

theorem first_guard_gives_sample:
  assumes ret: "measure_phase w N dur m = Some (Inr m')"
    and first: "get_time (clock w (Suc (clock_reads m))) - get_time (clock w (clock_reads m)) <
                real_of_int dur"
  shows "latencies m' \<noteq> []"
proof -
  obtain k where lat: "latencies m' = loop_samples w (Suc (clock_reads m)) k"
    and k0: "k = 0 \<Longrightarrow> \<not> guard_ok w (get_time (clock w (clock_reads m))) dur (Suc (clock_reads m))"
    using ret by (rule measure_phase_latencies) (rule that)
  from first have "k \<noteq> 0" using k0 by (auto simp: guard_ok_def)
  with lat show ?thesis by (simp add: loop_samples_def)
qed

theorem first_guard_gives_sample_witness:
  "measure_phase tick_world 1024 2 machine0 =
     Some (Inr \<lparr>clock_reads = 5, gemm_calls = 1, sync_calls = 1, latencies = [1]\<rparr>) \<and>
   get_time (clock tick_world 1) - get_time (clock tick_world 0) < real_of_int 2 \<and>
   latencies \<lparr>clock_reads = 5, gemm_calls = 1, sync_calls = 1, latencies = [1::real]\<rparr> \<noteq> []"
proof -
  have "get_time (clock tick_world (Suc (clock_reads machine0))) -
        get_time (clock tick_world (clock_reads machine0)) < real_of_int 2"
    by (simp add: tick_world_def machine0_def get_time_def)
  from first_guard_gives_sample [OF tick_world_run this] this tick_world_run show ?thesis
    by (simp add: machine0_def)
qed

text \<open>
  C12. The status of \<open>cudaDeviceSynchronize()\<close> is never looked at: the loop's
  outcome is the same whatever the synchronisations return.
\<close>

theorem sample_loop_ignores_sync_status:
  "sample_loop (w\<lparr>sync_status := s\<rparr>) N start dur m = sample_loop w N start dur m"
  by (rule sample_loop_spec_cong) (simp add: loop_spec_sync_status)

text \<open>
  C13. With a stopped clock and a positive duration, a run whose GEMMs all
  succeed never leaves the loop: the measurement phase does not return.
\<close>

theorem frozen_clock_never_returns:
  assumes dur: "0 < dur" and frozen: "\<forall>i. clock w i = c"
    and ok: "\<forall>k. gemm_status w N k = 0"
  shows "measure_phase w N dur m = None"
proof (rule ccontr)
  assume "measure_phase w N dur m \<noteq> None"
  then obtain r where "sample_loop w N (get_time c) dur
      (m\<lparr>latencies := [], clock_reads := Suc (clock_reads m)\<rparr>) = Some r"
    using frozen by (auto simp: measure_phase_unfold)
  then have "loop_spec w N (get_time c) dur
      (m\<lparr>latencies := [], clock_reads := Suc (clock_reads m)\<rparr>) r"
    by (rule sample_loop_spec)
  then obtain k s where "loop_exit w N (get_time c) dur s r"
    unfolding loop_spec_def by blast
  moreover have "guard_ok w (get_time c) dur j" for j
    using dur frozen by (simp add: guard_ok_def)
  ultimately show False using ok by (cases r) (simp_all add: loop_exit_def)
qed

theorem frozen_clock_never_returns_witness:
  "0 < (10::int) \<and> (\<forall>i. clock frozen_world i = \<lparr>tv_sec = 100, tv_usec = 0\<rparr>) \<and>
   (\<forall>k. gemm_status frozen_world 1024 k = 0) \<and>
   measure_phase frozen_world 1024 10 machine0 = None"
proof -
  have c: "\<forall>i. clock frozen_world i = \<lparr>tv_sec = 100, tv_usec = 0\<rparr>"
    and g: "\<forall>k. gemm_status frozen_world 1024 k = 0"
    by (simp_all add: frozen_world_def)
  show ?thesis using frozen_clock_never_returns [of 10 frozen_world _ 1024 machine0, OF _ c g] c g
    by simp
qed

text \<open>
  C24. A bound on the loop's work: if every clock reading is at least
  \<open>\<delta> > 0\<close> seconds after the previous one, the measurement phase returns, and a
  normal return has either no sample or \<open>n\<close> samples with
  \<open>(3 n - 2) \<delta> < duration\<close>: the \<open>n\<close>-th guard is read \<open>3 n - 2\<close> readings after
  the start, and it passed.
\<close>

theorem sample_count_bounded:
  assumes adv: "clock_advances w \<delta>" and pos: "0 < \<delta>"
  shows "\<exists>r. measure_phase w N dur m = Some r \<and>
             (\<forall>m'. r = Inr m' \<longrightarrow>
                latencies m' = [] \<or> (3 * real (length (latencies m')) - 2) * \<delta> < real_of_int dur)"
proof -
  obtain r where ret: "measure_phase w N dur m = Some r"
    using measure_phase_returns clock_advances_mono [OF adv] clock_advances_unbounded [OF adv pos]
      pos by fastforce
  have "latencies m' = [] \<or> (3 * real (length (latencies m')) - 2) * \<delta> < real_of_int dur"
    if r: "r = Inr m'" for m'
  proof -
    obtain k where lat: "latencies m' = loop_samples w (Suc (clock_reads m)) k"
      and g: "\<forall>i<k. guard_ok w (get_time (clock w (clock_reads m))) dur (Suc (clock_reads m) + 3 * i)"
      using measure_phase_guards [of w N dur m m'] ret r by blast
    show ?thesis
    proof (cases k)
      case 0
      then show ?thesis using lat by simp
    next
      case (Suc j)
      have last: "get_time (clock w (clock_reads m + (1 + 3 * j))) - get_time (clock w (clock_reads m))
                  < real_of_int dur"
        using g Suc by (simp add: guard_ok_def)
      have "get_time (clock w (clock_reads m)) + real (1 + 3 * j) * \<delta>
            \<le> get_time (clock w (clock_reads m + (1 + 3 * j)))"
        using adv by (rule clock_advances_ge)
      with last have "real (1 + 3 * j) * \<delta> < real_of_int dur" by linarith
      moreover have "length (latencies m') = Suc j" using lat Suc by (simp add: loop_samples_def)
      ultimately show ?thesis by (simp add: algebra_simps)
    qed
  qed
  with ret show ?thesis by blast
qed

theorem sample_count_bounded_witness:
  "clock_advances tick_world 1 \<and> (0::real) < 1 \<and>
   measure_phase tick_world 1024 2 machine0 =
     Some (Inr \<lparr>clock_reads = 5, gemm_calls = 1, sync_calls = 1, latencies = [1]\<rparr>) \<and>
   (3 * real (length [1::real]) - 2) * 1 < real_of_int 2"
  using sample_count_bounded [OF tick_world_advances, of 1024 2 machine0] tick_world_run
    tick_world_advances by simp

end
