(* ===== verification/Double.thy ===== *)
theory Double
  imports Prelude
begin

text \<open>
  C \<open>double\<close> arithmetic as the benchmark's metric code uses it. A value is a
  finite number, one of the two infinities, or NaN. The IEEE-754 rules for the
  special values are kept: \<open>x / 0\<close> is an infinity, \<open>0 / 0\<close>, \<open>\<infinity> - \<infinity>\<close> and
  \<open>0 * \<infinity>\<close> are NaN, every comparison with NaN is false. Finite results are
  the exact real results: rounding to 53 bits and overflow to infinity are not
  modelled. The model has one zero, \<open>+0\<close>: it is the only zero this program
  produces, since its sums start at \<open>0.0\<close> and its divisors are sums of
  latencies or positive constants.
\<close>

datatype dbl = Num real | PInf | NInf | NaN

named_theorems dbl_simps "evaluation rules of the double operations"

text \<open>Sign of a non-NaN value, used by the multiplication rule.\<close>

fun d_sgn :: "dbl \<Rightarrow> real" where
  "d_sgn (Num a) = sgn a"
| "d_sgn PInf = 1"
| "d_sgn NInf = -1"
| "d_sgn NaN = 0"

fun d_add :: "dbl \<Rightarrow> dbl \<Rightarrow> dbl" where
  "d_add (Num a) (Num b) = Num (a + b)"
| "d_add NaN _ = NaN"
| "d_add _ NaN = NaN"
| "d_add PInf NInf = NaN"
| "d_add NInf PInf = NaN"
| "d_add PInf _ = PInf"
| "d_add NInf _ = NInf"
| "d_add _ PInf = PInf"
| "d_add _ NInf = NInf"

fun d_neg :: "dbl \<Rightarrow> dbl" where
  "d_neg (Num a) = Num (- a)"
| "d_neg PInf = NInf"
| "d_neg NInf = PInf"
| "d_neg NaN = NaN"

definition d_sub :: "dbl \<Rightarrow> dbl \<Rightarrow> dbl" where
  "d_sub x y = d_add x (d_neg y)"

fun d_mul :: "dbl \<Rightarrow> dbl \<Rightarrow> dbl" where
  "d_mul (Num a) (Num b) = Num (a * b)"
| "d_mul NaN _ = NaN"
| "d_mul _ NaN = NaN"
| "d_mul x y =
     (let s = d_sgn x * d_sgn y in if s = 0 then NaN else if 0 < s then PInf else NInf)"

fun d_div :: "dbl \<Rightarrow> dbl \<Rightarrow> dbl" where
  "d_div (Num a) (Num b) =
     (if b \<noteq> 0 then Num (a / b)
      else if a = 0 then NaN else if 0 < a then PInf else NInf)"
| "d_div (Num a) PInf = Num 0"
| "d_div (Num a) NInf = Num 0"
| "d_div PInf (Num b) = (if b < 0 then NInf else PInf)"
| "d_div NInf (Num b) = (if b < 0 then PInf else NInf)"
| "d_div _ _ = NaN"

text \<open>\<open>std::pow(x, 3)\<close>: an integer power; \<open>pow(x, 0) = 1\<close> even for NaN.\<close>

fun d_pow :: "dbl \<Rightarrow> nat \<Rightarrow> dbl" where
  "d_pow x 0 = Num 1"
| "d_pow (Num a) n = Num (a ^ n)"
| "d_pow PInf (Suc n) = PInf"
| "d_pow NInf (Suc n) = (if even n then NInf else PInf)"
| "d_pow NaN (Suc n) = NaN"

fun d_lt :: "dbl \<Rightarrow> dbl \<Rightarrow> bool" where
  "d_lt (Num a) (Num b) = (a < b)"
| "d_lt NaN _ = False"
| "d_lt _ NaN = False"
| "d_lt NInf y = (y \<noteq> NInf)"
| "d_lt x PInf = (x \<noteq> PInf)"
| "d_lt _ _ = False"

definition d_gt :: "dbl \<Rightarrow> dbl \<Rightarrow> bool" where
  "d_gt x y = d_lt y x"

text \<open>Conversion of a C integer operand to \<open>double\<close> (exact for 32-bit values).\<close>

definition d_of_int :: "int \<Rightarrow> dbl" where
  "d_of_int i = Num (of_int i)"

declare d_sub_def [dbl_simps] d_gt_def [dbl_simps] d_of_int_def [dbl_simps]

section \<open>Facts about the double operations\<close>

lemma d_div_Num_nz [dbl_simps]:
  "b \<noteq> 0 \<Longrightarrow> d_div (Num a) (Num b) = Num (a / b)"
  by simp

lemma d_div_Num_zero_pos [dbl_simps]:
  "0 < a \<Longrightarrow> d_div (Num a) (Num 0) = PInf"
  by simp

lemma d_gt_Num [dbl_simps]: "d_gt (Num a) (Num b) \<longleftrightarrow> b < a"
  by (simp add: d_gt_def)

lemma d_gt_NaN_left [dbl_simps]: "\<not> d_gt NaN y"
  by (cases y) (simp_all add: d_gt_def)

lemma d_gt_NaN_right [dbl_simps]: "\<not> d_gt x NaN"
  by (simp add: d_gt_def)

lemma d_div_NaN_left [dbl_simps]: "d_div NaN y = NaN"
  by (cases y) simp_all

lemma d_div_NaN_right [dbl_simps]: "d_div x NaN = NaN"
  by (cases x) simp_all

lemma d_mul_NaN_right [dbl_simps]: "d_mul x NaN = NaN"
  by (cases x) simp_all

lemma d_mul_PInf_pos [dbl_simps]: "0 < a \<Longrightarrow> d_mul PInf (Num a) = PInf"
  by simp

lemma d_div_PInf_pos [dbl_simps]: "0 < b \<Longrightarrow> d_div PInf (Num b) = PInf"
  by simp

lemma d_pow_Num [simp, dbl_simps]: "d_pow (Num a) n = Num (a ^ n)"
  by (cases n) simp_all

text \<open>\<open>std::accumulate\<close> with a \<open>0.0\<close> seed over finite values is the exact sum.\<close>

lemma foldl_d_add_Num:
  "foldl (\<lambda>acc x. d_add acc (Num x)) (Num c) xs = Num (c + sum_list xs)"
  by (induction xs arbitrary: c) (simp_all add: add.assoc)

end
