(* ===== verification/Metrics.thy ===== *)
theory Metrics
  imports Double
begin

text \<open>
  The metrics aggregator and the bottleneck classifier of
  \<open>src/v20/dmxperf/src/cpp/multi_gpu_gemm.cpp\<close>, lines 77--88 and 106--112:
  the reduction of the latency vector to a mean, the derived data and compute
  rates, the bus utilisation against the fixed PCIe 4.0 reference of 31.5 GB/s,
  and the 85\% threshold. Every \<open>double\<close> operation is the one of theory
  \<open>Double\<close>, so division by a zero mean gives an infinity or NaN, as in the
  compiled code.
\<close>

record rates =
  data_moved_gb :: dbl
  throughput_gbs :: dbl
  ops_per_iter :: dbl
  compute_tflops :: dbl
  utilization :: dbl

record run_stats =
  iters :: int
  total_time :: dbl
  time_per_calc :: dbl
  stat_rates :: rates

datatype bottleneck = IO_Bound | Compute_Bound

text \<open>\<open>std::accumulate(latencies.begin(), latencies.end(), 0.0)\<close>.\<close>

definition accumulate_latencies :: "real list \<Rightarrow> dbl" where
  "accumulate_latencies xs = foldl (\<lambda>acc x. d_add acc (Num x)) (Num 0) xs"

text \<open>\<open>double pcie_ref = 31.5;\<close>\<close>

definition pcie_ref :: dbl where
  "pcie_ref = Num 31.5"

text \<open>
  Lines 81--88: the rates derived from the mean latency \<open>time_per_calc\<close>.
  \<open>3.0 * N * N * sizeof(float)\<close> associates to the left and converts \<open>N\<close> and the
  \<open>size_t\<close> value \<open>4\<close> to \<open>double\<close>.
\<close>

definition derive_rates :: "int \<Rightarrow> dbl \<Rightarrow> rates" where
  "derive_rates N tpc =
     (let dm = d_div (d_mul (d_mul (d_mul (Num 3) (d_of_int N)) (d_of_int N)) (Num 4))
                     (d_mul (d_mul (Num 1024) (Num 1024)) (Num 1024));
          thr = d_div dm tpc;
          ops = d_mul (Num 2) (d_pow (d_of_int N) 3);
          tflops = d_div (d_div ops tpc) (Num 1000000000000);
          util = d_mul (d_div thr pcie_ref) (Num 100)
      in \<lparr>data_moved_gb = dm, throughput_gbs = thr, ops_per_iter = ops,
          compute_tflops = tflops, utilization = util\<rparr>)"

text \<open>
  Lines 77--88: \<open>int iters = latencies.size()\<close> (a \<open>size_t\<close> narrowed to
  \<open>int\<close>), the total, the mean \<open>total_time / iters\<close> and the rates.
\<close>

definition compute_stats :: "int \<Rightarrow> real list \<Rightarrow> run_stats" where
  "compute_stats N latencies =
     (let n = c_int_of_nat (length latencies);
          total = accumulate_latencies latencies;
          tpc = d_div total (d_of_int n)
      in \<lparr>iters = n, total_time = total, time_per_calc = tpc,
          stat_rates = derive_rates N tpc\<rparr>)"

text \<open>Lines 106--112: \<open>if (utilization > 85.0)\<close> I/O bound, else compute bound.\<close>

definition diagnose :: "dbl \<Rightarrow> bottleneck" where
  "diagnose util = (if d_gt util (Num 85) then IO_Bound else Compute_Bound)"

text \<open>The real values of the derived rates for a finite, nonzero mean.\<close>

definition data_moved_real :: "int \<Rightarrow> real" where
  "data_moved_real N = 3 * of_int N * of_int N * 4 / (1024 * 1024 * 1024)"

section \<open>Closed forms of the aggregation\<close>

lemma accumulate_latencies_sum [simp]:
  "accumulate_latencies xs = Num (sum_list xs)"
  by (simp add: accumulate_latencies_def foldl_d_add_Num)

lemma derive_rates_Num:
  assumes "t \<noteq> 0"
  shows "derive_rates N (Num t) =
    \<lparr>data_moved_gb = Num (data_moved_real N),
     throughput_gbs = Num (data_moved_real N / t),
     ops_per_iter = Num (2 * of_int N ^ 3),
     compute_tflops = Num (2 * of_int N ^ 3 / t / 1000000000000),
     utilization = Num (data_moved_real N / t / 31.5 * 100)\<rparr>"
  using assms
  by (simp add: derive_rates_def data_moved_real_def pcie_ref_def d_of_int_def Let_def
      numeral_3_eq_3)

lemma compute_stats_mean:
  assumes "xs \<noteq> []" and "length xs < 2 ^ 31"
  shows "compute_stats N xs =
    \<lparr>iters = int (length xs), total_time = Num (sum_list xs),
     time_per_calc = Num (sum_list xs / real (length xs)),
     stat_rates = derive_rates N (Num (sum_list xs / real (length xs)))\<rparr>"
  using assms
  by (simp add: compute_stats_def c_int_of_nat_id d_of_int_def Let_def)

section \<open>Properties of the aggregator and the classifier\<close>

text \<open>
  C1. For a non-empty run of fewer than \<open>2^31\<close> samples (so that
  \<open>int iters = latencies.size()\<close> does not wrap), \<open>iters\<close> is the number of
  samples and \<open>time_per_calc\<close> is their arithmetic mean.
\<close>

lemma mean_latency_is_average:
  assumes "xs \<noteq> []" and "length xs < 2 ^ 31"
  shows "iters (compute_stats N xs) = int (length xs) \<and>
         time_per_calc (compute_stats N xs) = Num (sum_list xs / real (length xs))"
  using compute_stats_mean [OF assms] by simp

lemma mean_latency_is_average_witness:
  "[0.01, 0.03 :: real] \<noteq> [] \<and> length [0.01, 0.03 :: real] < 2 ^ 31 \<and>
   iters (compute_stats 1024 [0.01, 0.03]) = 2 \<and>
   time_per_calc (compute_stats 1024 [0.01, 0.03]) = Num 0.02"
  using mean_latency_is_average [of "[0.01, 0.03]" 1024] by simp

text \<open>
  C2. For a positive dimension, a strictly larger mean latency gives a strictly
  smaller throughput and a strictly smaller TFLOPS figure, in the exact
  arithmetic the code approximates (rounded to \<open>double\<close>, close means can
  give equal rates).
\<close>

lemma rates_decrease_with_latency:
  assumes "0 < N" and "0 < t1" and "t1 < t2"
  shows "d_lt (throughput_gbs (derive_rates N (Num t2))) (throughput_gbs (derive_rates N (Num t1))) \<and>
         d_lt (compute_tflops (derive_rates N (Num t2))) (compute_tflops (derive_rates N (Num t1)))"
proof -
  have "0 < data_moved_real N" using assms(1) by (simp add: data_moved_real_def)
  moreover have "(0::real) < 2 * of_int N ^ 3" using assms(1) by simp
  ultimately show ?thesis
    using assms by (simp add: derive_rates_Num divide_strict_left_mono mult_pos_pos)
qed

lemma rates_decrease_with_latency_witness:
  "0 < (1024::int) \<and> 0 < (0.01::real) \<and> (0.01::real) < 0.02 \<and>
   d_lt (throughput_gbs (derive_rates 1024 (Num 0.02))) (throughput_gbs (derive_rates 1024 (Num 0.01)))"
  using rates_decrease_with_latency [of 1024 "0.01" "0.02"] by simp

text \<open>
  C3. At a fixed nonzero mean latency, scaling the dimension by \<open>k\<close> scales the
  compute rate by \<open>k^3\<close> and the data volume by \<open>k^2\<close>.
\<close>

lemma rates_scale_with_dimension:
  assumes "t \<noteq> 0"
  shows "compute_tflops (derive_rates (k * N) (Num t)) =
           d_mul (Num (of_int k ^ 3)) (compute_tflops (derive_rates N (Num t))) \<and>
         data_moved_gb (derive_rates (k * N) (Num t)) =
           d_mul (Num (of_int k ^ 2)) (data_moved_gb (derive_rates N (Num t)))"
  using assms
  by (simp add: derive_rates_Num data_moved_real_def power_mult_distrib power2_eq_square)

lemma rates_scale_with_dimension_witness:
  "(0.01::real) \<noteq> 0 \<and>
   compute_tflops (derive_rates (2 * 1024) (Num 0.01)) =
     d_mul (Num 8) (compute_tflops (derive_rates 1024 (Num 0.01)))"
  using rates_scale_with_dimension [of "0.01" 2 1024] by simp

text \<open>
  C4. The classifier reports I/O bound exactly when the utilisation is strictly
  above 85: 85.0 is compute bound, 85.0001 is I/O bound, an infinite
  utilisation is I/O bound and a NaN utilisation is compute bound.
\<close>

lemma diagnose_threshold:
  "(\<forall>u. diagnose (Num u) = IO_Bound \<longleftrightarrow> 85 < u) \<and>
   diagnose (Num 85) = Compute_Bound \<and> diagnose (Num 85.0001) = IO_Bound \<and>
   diagnose PInf = IO_Bound \<and> diagnose NaN = Compute_Bound"
  by (simp add: diagnose_def d_gt_def)

text \<open>
  C5. For a positive dimension, a non-empty run whose samples sum to zero is
  not reported as an error:
  the mean is \<open>0.0\<close>, throughput and TFLOPS are \<open>+\<infinity>\<close>, and the run is
  classified I/O bound.
\<close>

lemma zero_mean_reports_infinity:
  assumes "xs \<noteq> []" and "length xs < 2 ^ 31" and "sum_list xs = 0" and "0 < N"
  shows "time_per_calc (compute_stats N xs) = Num 0 \<and>
         throughput_gbs (stat_rates (compute_stats N xs)) = PInf \<and>
         compute_tflops (stat_rates (compute_stats N xs)) = PInf \<and>
         diagnose (utilization (stat_rates (compute_stats N xs))) = IO_Bound"
  using assms
  by (simp add: compute_stats_mean derive_rates_def d_of_int_def pcie_ref_def diagnose_def
      d_gt_def Let_def)

lemma zero_mean_reports_infinity_witness:
  "[0::real] \<noteq> [] \<and> length [0::real] < 2 ^ 31 \<and> sum_list [0::real] = 0 \<and> 0 < (1024::int) \<and>
   throughput_gbs (stat_rates (compute_stats 1024 [0])) = PInf"
  using zero_mean_reports_infinity [of "[0]" 1024] by simp

text \<open>
  C6. A run with no sample at all yields \<open>0.0 / 0\<close>: the mean and every rate
  are NaN, and the NaN utilisation is classified compute bound.
\<close>

lemma empty_run_reports_nan:
  "time_per_calc (compute_stats N []) = NaN \<and>
   throughput_gbs (stat_rates (compute_stats N [])) = NaN \<and>
   compute_tflops (stat_rates (compute_stats N [])) = NaN \<and>
   utilization (stat_rates (compute_stats N [])) = NaN \<and>
   diagnose (utilization (stat_rates (compute_stats N []))) = Compute_Bound"
  by (simp add: compute_stats_def derive_rates_def d_of_int_def c_int_of_nat_def pcie_ref_def
      diagnose_def Let_def dbl_simps)

text \<open>
  C22. \<open>int iters = latencies.size()\<close> narrows a \<open>size_t\<close> to a 32-bit
  \<open>int\<close>: a run of \<open>2^31\<close> or more (and fewer than \<open>2^32\<close>) samples reports a
  negative iteration count, \<open>size - 2^32\<close>, and divides the total by it, so
  the mean latency of positive samples comes out negative.
\<close>

theorem iters_wraps_past_int_max:
  assumes "2 ^ 31 \<le> length xs" and "length xs < 2 ^ 32"
  shows "iters (compute_stats N xs) = int (length xs) - 2 ^ 32 \<and>
         time_per_calc (compute_stats N xs) = Num (sum_list xs / (real (length xs) - 2 ^ 32))"
proof -
  have "real_of_int (int (length xs) - 2 ^ 32) \<noteq> 0" using assms(2) by simp
  then show ?thesis using assms
    by (simp add: compute_stats_def c_int_of_nat_wrap d_of_int_def Let_def)
qed

theorem iters_wraps_past_int_max_witness:
  "2 ^ 31 \<le> length (replicate (2 ^ 31) (1/100::real)) \<and> length (replicate (2 ^ 31) (1/100::real)) < 2 ^ 32 \<and>
   iters (compute_stats 1024 (replicate (2 ^ 31) (1/100))) = - (2 ^ 31) \<and>
   time_per_calc (compute_stats 1024 (replicate (2 ^ 31) (1/100))) = Num (- (1/100))"
  using iters_wraps_past_int_max [of "replicate (2 ^ 31) (1/100)" 1024] by (simp add: sum_list_replicate)

end
