(* ===== verification/Config.thy ===== *)
theory Config
  imports Prelude
begin

text \<open>
  The command line, lines 35--38 of \<open>multi_gpu_gemm.cpp\<close>: \<open>N = 16384\<close> and
  \<open>duration = 10\<close> unless \<open>argv[1]\<close> and \<open>argv[2]\<close> are given, in which case
  they are read with \<open>atoi\<close> and nothing else: no check of the result.

  \<open>atoi\<close> is the C library's (glibc: \<open>(int) strtol(s, NULL, 10)\<close>): leading
  white space is skipped, one optional sign is read, then decimal digits up to
  the first non-digit; no digit gives 0; \<open>strtol\<close> saturates at the bounds of
  the 64-bit \<open>long\<close>, and the conversion to \<open>int\<close> keeps the low 32 bits
  (\<open>c_int_of_int\<close>). \<open>int_to_dec\<close> prints an integer in decimal; it is the
  inverse the round-trip lemma is stated with.
\<close>

definition is_c_space :: "char \<Rightarrow> bool" where
  "is_c_space c \<longleftrightarrow> of_char c = (32::nat) \<or> (9 \<le> (of_char c :: nat) \<and> (of_char c :: nat) \<le> 13)"

definition is_c_digit :: "char \<Rightarrow> bool" where
  "is_c_digit c \<longleftrightarrow> 48 \<le> (of_char c :: nat) \<and> (of_char c :: nat) \<le> 57"

definition digit_val :: "char \<Rightarrow> int" where
  "digit_val c = int (of_char c) - 48"

fun skip_space :: "string \<Rightarrow> string" where
  "skip_space [] = []"
| "skip_space (c # cs) = (if is_c_space c then skip_space cs else c # cs)"

fun digits_value :: "int \<Rightarrow> string \<Rightarrow> int" where
  "digits_value acc [] = acc"
| "digits_value acc (c # cs) =
     (if is_c_digit c then digits_value (10 * acc + digit_val c) cs else acc)"

definition long_min :: int where "long_min = - (2 ^ 63)"
definition long_max :: int where "long_max = 2 ^ 63 - 1"

definition strtol10 :: "string \<Rightarrow> int" where
  "strtol10 s =
     (let t = skip_space s;
          (neg, u) = (case t of
                        [] \<Rightarrow> (False, [])
                      | c # cs \<Rightarrow> if c = CHR ''-'' then (True, cs)
                                 else if c = CHR ''+'' then (False, cs) else (False, t));
          v = digits_value 0 u
      in max long_min (min long_max (if neg then - v else v)))"

definition atoi :: "string \<Rightarrow> int" where
  "atoi s = c_int_of_int (strtol10 s)"

text \<open>Lines 35--38: \<open>argv\<close> includes the program name, \<open>argc = length argv\<close>.\<close>

definition parse_args :: "string list \<Rightarrow> int \<times> int" where
  "parse_args argv =
     (let argc = length argv;
          N = (if argc > 1 then atoi (argv ! 1) else 16384);
          duration = (if argc > 2 then atoi (argv ! 2) else 10)
      in (N, duration))"

fun nat_to_dec :: "nat \<Rightarrow> string" where
  "nat_to_dec n =
     (if n < 10 then [char_of (48 + n)] else nat_to_dec (n div 10) @ [char_of (48 + n mod 10)])"

definition int_to_dec :: "int \<Rightarrow> string" where
  "int_to_dec i = (if i < 0 then CHR ''-'' # nat_to_dec (nat (- i)) else nat_to_dec (nat i))"

declare nat_to_dec.simps [simp del]

section \<open>Decimal digits\<close>

lemma digit_char_of:
  "d < 10 \<Longrightarrow> is_c_digit (char_of (48 + d)) \<and> digit_val (char_of (48 + d)) = int d"
  by (simp add: is_c_digit_def digit_val_def of_char_of)

lemma digits_value_append:
  "list_all is_c_digit xs \<Longrightarrow> digits_value acc (xs @ ys) = digits_value (digits_value acc xs) ys"
  by (induction acc xs rule: digits_value.induct) auto

lemma nat_to_dec_digits: "list_all is_c_digit (nat_to_dec n)"
proof (induction n rule: nat_to_dec.induct)
  case (1 n)
  then show ?case
    by (subst nat_to_dec.simps) (simp add: digit_char_of)
qed

lemma nat_to_dec_ne: "nat_to_dec n \<noteq> []"
  by (subst nat_to_dec.simps) simp

lemma digits_value_nat_to_dec:
  "digits_value acc (nat_to_dec n) = acc * 10 ^ length (nat_to_dec n) + int n"
proof (induction n arbitrary: acc rule: nat_to_dec.induct)
  case (1 n)
  show ?case
  proof (cases "n < 10")
    case True
    then show ?thesis by (simp add: nat_to_dec.simps [of n] digit_char_of)
  next
    case False
    then have "digits_value acc (nat_to_dec n) =
      10 * digits_value acc (nat_to_dec (n div 10)) + int (n mod 10)"
      by (subst nat_to_dec.simps)
        (simp add: digits_value_append nat_to_dec_digits digit_char_of)
    also have "\<dots> = acc * 10 ^ length (nat_to_dec n) + int n"
    proof -
      have "int (n mod 10) + 10 * int (n div 10) = int n"
        by (metis mod_mult_div_eq of_nat_add of_nat_mult of_nat_numeral)
      then show ?thesis
        using False "1.IH" [of acc]
        by (subst (2) nat_to_dec.simps) (simp add: algebra_simps)
    qed
    finally show ?thesis .
  qed
qed

lemma nat_to_dec_hd: "hd (nat_to_dec n) \<noteq> CHR ''-'' \<and> hd (nat_to_dec n) \<noteq> CHR ''+'' \<and>
  \<not> is_c_space (hd (nat_to_dec n))"
proof -
  have "list_all is_c_digit (nat_to_dec n)" by (rule nat_to_dec_digits)
  then have "is_c_digit (hd (nat_to_dec n))" using nat_to_dec_ne
    by (cases "nat_to_dec n") auto
  then show ?thesis by (auto simp: is_c_digit_def is_c_space_def)
qed

lemma digit_not_sign_space:
  "is_c_digit c \<Longrightarrow> c \<noteq> CHR ''-'' \<and> c \<noteq> CHR ''+'' \<and> \<not> is_c_space c"
  by (auto simp: is_c_digit_def is_c_space_def)

lemma strtol10_digits:
  assumes "list_all is_c_digit s" and "s \<noteq> []"
  shows "strtol10 s = max long_min (min long_max (digits_value 0 s))"
  using assms by (cases s) (simp_all add: strtol10_def digit_not_sign_space)

lemma strtol10_minus_digits:
  "strtol10 (CHR ''-'' # s) = max long_min (min long_max (- digits_value 0 s))"
  by (simp add: strtol10_def is_c_space_def)

lemma strtol10_int_to_dec: "strtol10 (int_to_dec i) = max long_min (min long_max i)"
  by (simp add: int_to_dec_def strtol10_digits strtol10_minus_digits nat_to_dec_digits
      nat_to_dec_ne digits_value_nat_to_dec)

lemma atoi_int_to_dec:
  "- (2 ^ 31) \<le> i \<Longrightarrow> i < 2 ^ 31 \<Longrightarrow> atoi (int_to_dec i) = i"
  by (simp add: atoi_def strtol10_int_to_dec long_min_def long_max_def c_int_of_int_id)

lemma parse_args_range:
  assumes "parse_args argv = (N, d)"
  shows "- (2 ^ 31) \<le> N \<and> N < 2 ^ 31 \<and> - (2 ^ 31) \<le> d \<and> d < 2 ^ 31"
  using assms c_int_of_int_range
  by (auto simp: parse_args_def atoi_def Let_def split: if_splits)

section \<open>Properties of the command line\<close>

text \<open>
  C14. Round trip: a dimension and a duration in the range of a C \<open>int\<close>,
  printed in decimal as \<open>argv[1]\<close> and \<open>argv[2]\<close>, are read back exactly.
\<close>

theorem parse_args_roundtrip:
  assumes "- (2 ^ 31) \<le> n" and "n < 2 ^ 31" and "- (2 ^ 31) \<le> d" and "d < 2 ^ 31"
  shows "parse_args [p, int_to_dec n, int_to_dec d] = (n, d)"
  using assms by (simp add: parse_args_def atoi_int_to_dec)

theorem parse_args_roundtrip_witness:
  "- (2 ^ 31) \<le> (16384::int) \<and> (16384::int) < 2 ^ 31 \<and> - (2 ^ 31) \<le> (-3::int) \<and> (-3::int) < 2 ^ 31 \<and>
   parse_args [''gemm'', int_to_dec 16384, int_to_dec (-3)] = (16384, -3)"
  using parse_args_roundtrip [of 16384 "-3" "''gemm''"] by simp

end
