(* ===== verification/HostBuffers.thy ===== *)
theory HostBuffers
  imports Prelude
begin

text \<open>
  The host buffers (lines 52--61). \<open>size_bytes\<close> is
  \<open>(size_t)N * N * sizeof(float)\<close> in 64-bit unsigned arithmetic: \<open>N\<close> is
  converted to \<open>size_t\<close> (modulo \<open>2^64\<close>) and the products wrap.
  \<open>cudaMallocHost\<close> returns a buffer of that many bytes, that is
  \<open>size_bytes div 4\<close> floats of unspecified content. The OpenMP loop of lines
  58--61 writes \<open>h_A[i] = 1.0f\<close> and \<open>h_B[i] = 0.5f\<close> for every
  \<open>i < (size_t)N * N\<close>; its iterations are spread over the thread pool and
  run in an order no one fixes. The model takes the order from a rank
  function (\<open>omp_order\<close>: indices sorted by the time they are written), so
  that every interleaving of the threads is one of its values. A store
  outside the buffer is undefined behaviour in C; the model makes it the
  failure value \<open>None\<close>.
\<close>

type_synonym buffers = "real list \<times> real list"

definition elem_count :: "int \<Rightarrow> size_t" where
  "elem_count N = size_t_of_int N * size_t_of_int N"

definition size_bytes :: "int \<Rightarrow> size_t" where
  "size_bytes N = size_t_of_int N * size_t_of_int N * 4"

text \<open>The buffer \<open>cudaMallocHost\<close> returns: \<open>size div 4\<close> floats, content given.\<close>

definition pinned_buffer :: "(nat \<Rightarrow> real) \<Rightarrow> size_t \<Rightarrow> real list" where
  "pinned_buffer garbage sz = map garbage [0..<unat sz div 4]"

text \<open>One iteration of the loop body, line 60, with its two stores checked.\<close>

definition init_step :: "nat \<Rightarrow> buffers option \<Rightarrow> buffers option" where
  "init_step i s =
     (case s of
        None \<Rightarrow> None
      | Some (a, b) \<Rightarrow> if i < length a \<and> i < length b then Some (a[i := 1], b[i := 0.5]) else None)"

definition omp_order :: "(nat \<Rightarrow> nat) \<Rightarrow> nat \<Rightarrow> nat list" where
  "omp_order rank n = sort_key rank [0..<n]"

text \<open>Lines 58--61: the parallel loop over \<open>i < (size_t)N * N\<close>.\<close>

definition init_inputs :: "(nat \<Rightarrow> nat) \<Rightarrow> size_t \<Rightarrow> buffers \<Rightarrow> buffers option" where
  "init_inputs rank cnt ab = fold init_step (omp_order rank (unat cnt)) (Some ab)"

text \<open>The content of a buffer after the positions in \<open>S\<close> are set to \<open>v\<close>.\<close>

definition overwrite :: "real list \<Rightarrow> nat set \<Rightarrow> real \<Rightarrow> real list" where
  "overwrite xs S v = map (\<lambda>j. if j \<in> S then v else xs ! j) [0..<length xs]"

section \<open>Sizes\<close>

lemma size_t_of_int_mult: "size_t_of_int a * size_t_of_int b = size_t_of_int (a * b)"
  by (simp add: size_t_of_int_def)

lemma unat_size_t_of_int:
  "0 \<le> x \<Longrightarrow> x < 2 ^ 64 \<Longrightarrow> unat (size_t_of_int x) = nat x"
  by (simp add: size_t_of_int_def unsigned_of_int take_bit_int_eq_self)

lemma square_bound:
  fixes N :: int
  assumes "- (2 ^ 31) < N" and "N < 2 ^ 31"
  shows "N * N < 2 ^ 62"
proof -
  have "\<bar>N\<bar> < 2 ^ 31" using assms by auto
  then have "\<bar>N\<bar> * \<bar>N\<bar> < 2 ^ 31 * 2 ^ 31"
    by (intro mult_strict_mono) auto
  then show ?thesis by (simp add: abs_mult [symmetric])
qed

section \<open>The initialisation loop\<close>

lemma init_step_None [simp]: "init_step i None = None"
  by (simp add: init_step_def)

lemma init_step_Some [simp]:
  "init_step i (Some (a, b)) =
   (if i < length a \<and> i < length b then Some (a[i := 1], b[i := 0.5]) else None)"
  by (simp add: init_step_def)

lemma fold_init_step_None [simp]: "fold init_step is None = None"
  by (induction "is") simp_all

lemma overwrite_update:
  "i < length xs \<Longrightarrow> overwrite (xs[i := v]) S v = overwrite xs (insert i S) v"
  by (simp add: overwrite_def nth_list_update)

lemma overwrite_empty [simp]: "overwrite xs {} v = xs"
  by (simp add: overwrite_def map_nth)

lemma length_overwrite [simp]: "length (overwrite xs S v) = length xs"
  by (simp add: overwrite_def)

lemma fold_init_step_Some:
  "\<forall>i \<in> set is. i < length a \<and> i < length b \<Longrightarrow>
   fold init_step is (Some (a, b)) = Some (overwrite a (set is) 1, overwrite b (set is) 0.5)"
proof (induction "is" arbitrary: a b)
  case Nil
  then show ?case by simp
next
  case (Cons i "is")
  then have "fold init_step is (Some (a[i := 1], b[i := 0.5])) =
    Some (overwrite (a[i := 1]) (set is) 1, overwrite (b[i := 0.5]) (set is) 0.5)"
    by simp
  with Cons.prems show ?case
    by (simp add: overwrite_update)
qed

lemma fold_init_step_bounds:
  "fold init_step is (Some (a, b)) \<noteq> None \<Longrightarrow> i \<in> set is \<Longrightarrow> i < length a \<and> i < length b"
proof (induction "is" arbitrary: a b)
  case Nil
  then show ?case by simp
next
  case (Cons j "is")
  show ?case
  proof (cases "j < length a \<and> j < length b")
    case True
    from Cons.prems(1) True have "fold init_step is (Some (a[j := 1], b[j := 0.5])) \<noteq> None"
      by simp
    then have "i \<in> set is \<Longrightarrow> i < length (a[j := 1]) \<and> i < length (b[j := 0.5])"
      by (rule Cons.IH)
    with Cons.prems(2) True show ?thesis by auto
  next
    case False
    with Cons.prems(1) show ?thesis by simp
  qed
qed

lemma set_omp_order [simp]: "set (omp_order rank n) = {..<n}"
  by (auto simp: omp_order_def)

lemma overwrite_all: "length xs = n \<Longrightarrow> overwrite xs {..<n} v = replicate n v"
  by (auto simp: overwrite_def intro: nth_equalityI)

lemma elem_count_int: "elem_count N = size_t_of_int (N * N)"
  by (simp add: elem_count_def size_t_of_int_def)

lemma size_bytes_int: "size_bytes N = size_t_of_int (N * N * 4)"
  by (simp add: size_bytes_def size_t_of_int_def)

lemma unat_elem_count:
  "- (2 ^ 31) < N \<Longrightarrow> N < 2 ^ 31 \<Longrightarrow> unat (elem_count N) = nat (N * N)"
  using square_bound [of N] by (simp add: elem_count_int unat_size_t_of_int)

lemma unat_size_bytes:
  "- (2 ^ 31) < N \<Longrightarrow> N < 2 ^ 31 \<Longrightarrow> unat (size_bytes N) = 4 * nat (N * N)"
  using square_bound [of N] by (simp add: size_bytes_int unat_size_t_of_int nat_mult_distrib)

lemma int_min_init_fails:
  "init_inputs rank (elem_count (- (2 ^ 31)))
     (pinned_buffer g (size_bytes (- (2 ^ 31))), pinned_buffer g' (size_bytes (- (2 ^ 31)))) = None"
proof -
  have sz: "size_bytes (- (2 ^ 31)) = 0"
    by (simp add: size_bytes_int size_t_of_int_def)
  have cnt: "unat (elem_count (- (2 ^ 31))) = 2 ^ 62"
    by (simp add: elem_count_int unat_size_t_of_int)
  have "0 \<in> set (omp_order rank (unat (elem_count (- (2 ^ 31)))))"
    using cnt by simp
  then have "init_inputs rank (elem_count (- (2 ^ 31))) ([], []) = None"
    unfolding init_inputs_def using fold_init_step_bounds by fastforce
  with sz show ?thesis by (simp add: pinned_buffer_def)
qed

section \<open>Properties of the host buffers\<close>

text \<open>
  C15. For every dimension of the range of \<open>int\<close> except \<open>INT_MIN\<close>, neither
  \<open>(size_t)N * N\<close> nor the byte size wraps: the loop bound is \<open>N^2\<close> and
  the allocation is \<open>4 N^2\<close> bytes, four bytes per element written (for a
  negative \<open>N\<close> too, since \<open>(2^64 + N)^2 = N^2\<close> modulo \<open>2^64\<close>).
\<close>

theorem alloc_size_exact:
  assumes "- (2 ^ 31) < N" and "N < 2 ^ 31"
  shows "unat (elem_count N) = nat (N * N) \<and> unat (size_bytes N) = 4 * unat (elem_count N)"
  using assms by (simp add: unat_elem_count unat_size_bytes)

theorem alloc_size_exact_witness:
  "- (2 ^ 31) < (16384::int) \<and> (16384::int) < 2 ^ 31 \<and>
   unat (elem_count 16384) = 268435456 \<and> unat (size_bytes 16384) = 4 * unat (elem_count 16384)"
  using alloc_size_exact [of 16384] by simp

text \<open>
  C16. \<open>N = INT_MIN\<close> (the argument \<open>-2147483648\<close>) makes the byte size wrap
  to 0 while the loop bound is \<open>2^62\<close>: the buffers returned for a zero-byte
  request hold no element, and the initialisation loop stores out of bounds.
\<close>

theorem int_min_overflows_buffers:
  "size_bytes (- (2 ^ 31)) = 0 \<and> unat (elem_count (- (2 ^ 31))) = 2 ^ 62 \<and>
   init_inputs rank (elem_count (- (2 ^ 31)))
     (pinned_buffer g (size_bytes (- (2 ^ 31))), pinned_buffer g' (size_bytes (- (2 ^ 31)))) = None"
proof -
  have "size_bytes (- (2 ^ 31)) = 0"
    by (simp add: size_bytes_int size_t_of_int_def)
  moreover have "unat (elem_count (- (2 ^ 31))) = 2 ^ 62"
    by (simp add: elem_count_int unat_size_t_of_int)
  ultimately show ?thesis using int_min_init_fails [of rank g g'] by simp
qed

text \<open>
  C17. The parallel initialisation does not depend on the schedule: whatever
  order the OpenMP threads write in, buffers of the loop's length end as all
  \<open>1.0\<close> and all \<open>0.5\<close>.
\<close>

theorem init_inputs_any_schedule:
  assumes "length a = unat cnt" and "length b = unat cnt"
  shows "init_inputs rank cnt (a, b) = Some (replicate (unat cnt) 1, replicate (unat cnt) 0.5)"
  using assms by (simp add: init_inputs_def fold_init_step_Some overwrite_all)

theorem init_inputs_any_schedule_witness:
  "length [7, 7, 7 :: real] = unat (3 :: size_t) \<and> length [9, 9, 9 :: real] = unat (3 :: size_t) \<and>
   init_inputs (\<lambda>i. 2 - i) 3 ([7, 7, 7], [9, 9, 9]) = Some ([1, 1, 1], [0.5, 0.5, 0.5])"
proof -
  have u: "unat (3 :: size_t) = 3" by simp
  have "init_inputs (\<lambda>i. 2 - i) 3 ([7, 7, 7], [9, 9, 9]) =
    Some (replicate (unat (3 :: size_t)) 1, replicate (unat (3 :: size_t)) 0.5)"
    by (rule init_inputs_any_schedule) (simp_all only: u, simp_all)
  then show ?thesis by (simp only: u) (simp add: numeral_3_eq_3)
qed

text \<open>
  C18. For every other dimension in the range of \<open>int\<close>, the loop stays
  inside the pinned buffers \<open>cudaMallocHost\<close> returns: it succeeds whatever the
  schedule and whatever the buffers held, and fills \<open>N^2\<close> ones and halves.
\<close>

theorem init_inputs_in_bounds:
  assumes "- (2 ^ 31) < N" and "N < 2 ^ 31"
  shows "init_inputs rank (elem_count N) (pinned_buffer g (size_bytes N), pinned_buffer g' (size_bytes N)) =
         Some (replicate (nat (N * N)) 1, replicate (nat (N * N)) 0.5)"
  using assms
  by (simp add: init_inputs_def fold_init_step_Some overwrite_all pinned_buffer_def
      unat_elem_count unat_size_bytes)

theorem init_inputs_in_bounds_witness:
  "- (2 ^ 31) < (-2::int) \<and> (-2::int) < 2 ^ 31 \<and>
   init_inputs id (elem_count (-2)) (pinned_buffer (\<lambda>_. 3) (size_bytes (-2)), pinned_buffer (\<lambda>_. 3) (size_bytes (-2))) =
     Some ([1, 1, 1, 1], [0.5, 0.5, 0.5, 0.5])"
  using init_inputs_in_bounds [of "-2" id "\<lambda>_. 3" "\<lambda>_. 3"] by (simp add: numeral_eq_Suc)

end
