(* ===== verification/Benchmark.thy ===== *)
theory Benchmark
  imports Sampling Metrics Config HostBuffers
begin

text \<open>
  The whole of \<open>main\<close> (lines 34--117). A \<open>host_world\<close> extends the
  \<open>world\<close> of theory \<open>Runtime\<close> by the answers of the setup calls:
  \<open>cudaGetDeviceCount\<close> (status and count), \<open>cublasXtCreate\<close>,
  \<open>cublasXtDeviceSelect\<close>, \<open>cublasXtSetBlockDim\<close>, the \<open>k\<close>-th
  \<open>cudaMallocHost\<close> (status for the size asked) with the content of the buffer
  it returns, and the schedule of the OpenMP loop. \<open>omp_set_num_threads(8)\<close>
  only sizes the thread pool, whose schedule the world chooses anyway.
  \<open>setup_phase\<close> is lines 35--61, \<open>main\<close> runs it, the warm-up, the measurement
  and the metrics, and returns the outcome: an abort with the error of the
  failing check, or the report (the values lines 90--113 print) with the
  final call counts and host buffers; \<open>None\<close> is a run that never ends.
  The teardown of lines 115--116 releases resources and returns 0; its
  statuses are not checked and it has no effect on the outcome.
\<close>

record host_world = world +
  device_count :: "int \<times> int"
  xt_create :: int
  device_select :: "int \<Rightarrow> int list \<Rightarrow> int"
  set_block_dim :: "int \<Rightarrow> int"
  malloc_host :: "nat \<Rightarrow> size_t \<Rightarrow> int"
  host_garbage :: "nat \<Rightarrow> nat \<Rightarrow> real"
  omp_rank :: "nat \<Rightarrow> nat"

record config =
  cfg_N :: int
  cfg_duration :: int
  cfg_devices :: int
  cfg_h_A :: "real list"
  cfg_h_B :: "real list"

record report =
  rep_N :: int
  rep_devices :: int
  rep_stats :: run_stats
  rep_verdict :: bottleneck

record run_result =
  res_report :: report
  res_machine :: machine
  res_h_A :: "real list"
  res_h_B :: "real list"

datatype outcome = Aborted fatal | Completed run_result

text \<open>Lines 35--61: arguments, devices, handle, pinned buffers, initialisation.\<close>

definition setup_phase :: "'w host_world_scheme \<Rightarrow> string list \<Rightarrow> fatal + config" where
  "setup_phase w argv =
     (let (N, dur) = parse_args argv;
          (st, nd) = device_count w
      in ebind (check_cuda 43 st) (\<lambda>_.
         if nd < 0 then Inl (Length_Error 44) else
         let devices = map int [0..<nat nd] in
         ebind (check_cublas 48 (xt_create w)) (\<lambda>_.
         ebind (check_cublas 49 (device_select w nd devices)) (\<lambda>_.
         ebind (check_cublas 50 (set_block_dim w 4096)) (\<lambda>_.
         let sz = size_bytes N in
         ebind (check_cuda 54 (malloc_host w 0 sz)) (\<lambda>_.
         ebind (check_cuda 55 (malloc_host w 1 sz)) (\<lambda>_.
         ebind (check_cuda 56 (malloc_host w 2 sz)) (\<lambda>_.
         case init_inputs (omp_rank w) (elem_count N)
                (pinned_buffer (host_garbage w 0) sz, pinned_buffer (host_garbage w 1) sz) of
           None \<Rightarrow> Inl (Memory_Fault 60)
         | Some (a, b) \<Rightarrow>
             Inr \<lparr>cfg_N = N, cfg_duration = dur, cfg_devices = nd, cfg_h_A = a, cfg_h_B = b\<rparr>))))))))"

text \<open>Lines 34--117.\<close>

definition main :: "'w host_world_scheme \<Rightarrow> string list \<Rightarrow> outcome option" where
  "main w argv =
     (case setup_phase w argv of
        Inl e \<Rightarrow> Some (Aborted e)
      | Inr cfg \<Rightarrow>
          (case warm_up w (cfg_N cfg) machine0 of
             Inl e \<Rightarrow> Some (Aborted e)
           | Inr m1 \<Rightarrow>
               (case measure_phase w (cfg_N cfg) (cfg_duration cfg) m1 of
                  None \<Rightarrow> None
                | Some (Inl e) \<Rightarrow> Some (Aborted e)
                | Some (Inr m2) \<Rightarrow>
                    (let st = compute_stats (cfg_N cfg) (latencies m2)
                     in Some (Completed
                          \<lparr>res_report = \<lparr>rep_N = cfg_N cfg, rep_devices = cfg_devices cfg,
                                          rep_stats = st,
                                          rep_verdict = diagnose (utilization (stat_rates st))\<rparr>,
                           res_machine = m2, res_h_A = cfg_h_A cfg, res_h_B = cfg_h_B cfg\<rparr>)))))"

text \<open>
  How the process ends: \<open>return 0\<close>; \<open>exit(-1)\<close> from a check, status 255
  to the parent; \<open>std::terminate\<close> after an uncaught exception, which calls
  \<open>abort()\<close> and raises \<open>SIGABRT\<close> (6); a store out of bounds, after which the
  C++ standard says nothing.
\<close>

datatype proc_end = Exited "8 word" | Signalled nat | Undefined_Behaviour

definition exit_status :: "outcome \<Rightarrow> proc_end" where
  "exit_status out =
     (case out of
        Completed _ \<Rightarrow> Exited 0
      | Aborted (Cuda_Error _ _) \<Rightarrow> Exited (word_of_int (-1))
      | Aborted (Cublas_Error _ _) \<Rightarrow> Exited (word_of_int (-1))
      | Aborted (Length_Error _) \<Rightarrow> Signalled 6
      | Aborted (Memory_Fault _) \<Rightarrow> Undefined_Behaviour)"

text \<open>A world in which every call succeeds, with two devices and a one-second clock tick.\<close>

definition ok_world :: host_world where
  "ok_world = \<lparr>clock = (\<lambda>k. \<lparr>tv_sec = int k, tv_usec = 0\<rparr>), gemm_status = (\<lambda>_ _. 0),
               sync_status = (\<lambda>_. 0), device_count = (0, 2), xt_create = 0,
               device_select = (\<lambda>_ _. 0), set_block_dim = (\<lambda>_. 0), malloc_host = (\<lambda>_ _. 0),
               host_garbage = (\<lambda>_ _. 0), omp_rank = id\<rparr>"

text \<open>
  The fail-fast contract of the setup, stated apart from the code: the checked
  calls of lines 43--56 in source order, each with the status the world gives
  it and the error its check reports; \<open>first_failure\<close> is the error of the
  first call that does not succeed. \<open>calls_succeed\<close> is a world in which
  every call of the libraries succeeds.
\<close>

fun first_failure :: "(int \<times> (int \<Rightarrow> fatal)) list \<Rightarrow> fatal option" where
  "first_failure [] = None"
| "first_failure ((s, err) # cs) = (if s \<noteq> 0 then Some (err s) else first_failure cs)"

definition setup_checks :: "'w host_world_scheme \<Rightarrow> int \<Rightarrow> int \<Rightarrow> (int \<times> (int \<Rightarrow> fatal)) list" where
  "setup_checks w N nd =
     [(fst (device_count w), \<lambda>s. Cuda_Error s 43),
      (xt_create w, \<lambda>s. Cublas_Error s 48),
      (device_select w nd (map int [0..<nat nd]), \<lambda>s. Cublas_Error s 49),
      (set_block_dim w 4096, \<lambda>s. Cublas_Error s 50),
      (malloc_host w 0 (size_bytes N), \<lambda>s. Cuda_Error s 54),
      (malloc_host w 1 (size_bytes N), \<lambda>s. Cuda_Error s 55),
      (malloc_host w 2 (size_bytes N), \<lambda>s. Cuda_Error s 56)]"

definition calls_succeed :: "'w host_world_scheme \<Rightarrow> bool" where
  "calls_succeed w \<longleftrightarrow>
     fst (device_count w) = 0 \<and> 0 \<le> snd (device_count w) \<and> xt_create w = 0 \<and>
     (\<forall>n ds. device_select w n ds = 0) \<and> set_block_dim w 4096 = 0 \<and>
     (\<forall>k sz. malloc_host w k sz = 0) \<and> (\<forall>n k. gemm_status w n k = 0)"

section \<open>The phases of main\<close>

lemmas main_eval_simps = main_def setup_phase_def parse_args_def atoi_def strtol10_def
  is_c_space_def is_c_digit_def digit_val_def long_min_def long_max_def c_int_of_int_def
  size_bytes_int elem_count_int size_t_of_int_def init_inputs_def omp_order_def
  pinned_buffer_def warm_up_def call_simps measure_phase_unfold sample_loop_unfold
  sample_body_eq guard_ok_def get_time_def ok_world_def machine0_def Let_def upt_conv_Cons
  check_cuda_def check_cublas_def

lemma warm_up_Inr:
  "warm_up w N m = Inr m' \<Longrightarrow>
   m' = m\<lparr>gemm_calls := Suc (gemm_calls m), sync_calls := Suc (sync_calls m)\<rparr>"
  by (auto simp: warm_up_def call_simps ebind_eq_Inr)

lemma main_completed_run:
  assumes "main w argv = Some (Completed r)"
  obtains cfg m1 where "setup_phase w argv = Inr cfg"
    and "warm_up w (cfg_N cfg) machine0 = Inr m1"
    and "measure_phase w (cfg_N cfg) (cfg_duration cfg) m1 = Some (Inr (res_machine r))"
    and "rep_N (res_report r) = cfg_N cfg"
    and "rep_stats (res_report r) = compute_stats (cfg_N cfg) (latencies (res_machine r))"
    and "rep_verdict (res_report r) = diagnose (utilization (stat_rates (rep_stats (res_report r))))"
  using assms by (auto simp: main_def Let_def split: sum.splits option.splits)

lemma ok_world_mono: "clock_mono ok_world"
  by (simp add: clock_mono_def ok_world_def get_time_def)

lemma ok_world_unbounded: "clock_unbounded ok_world"
  unfolding clock_unbounded_def
proof
  fix b :: real
  have "b \<le> real (nat \<lceil>b\<rceil>)" by (rule real_nat_ceiling_ge)
  then show "\<exists>k. b \<le> get_time (clock ok_world k)"
    by (intro exI [of _ "nat \<lceil>b\<rceil>"]) (simp add: ok_world_def get_time_def)
qed

lemma ok_world_zero_dim:
  "\<exists>r. main ok_world [''gemm'', ''0'', ''2''] = Some (Completed r) \<and>
       rep_N (res_report r) = 0 \<and> gemm_calls (res_machine r) = 2 \<and> latencies (res_machine r) = [1]"
  by (simp add: main_eval_simps)

lemma main_completed_setup:
  assumes "main w argv = Some (Completed r)"
  shows "\<exists>cfg. setup_phase w argv = Inr cfg \<and> rep_N (res_report r) = cfg_N cfg \<and>
              rep_devices (res_report r) = cfg_devices cfg"
  using assms by (auto simp: main_def Let_def split: sum.splits option.splits)

lemma setup_phase_Inr_args:
  assumes "setup_phase w argv = Inr cfg"
  shows "parse_args argv = (cfg_N cfg, cfg_duration cfg)"
proof -
  obtain N d where pa: "parse_args argv = (N, d)" by fastforce
  obtain st nd where dc: "device_count w = (st, nd)" by fastforce
  from assms show ?thesis
    by (auto simp: setup_phase_def pa dc ebind_eq_Inr Let_def split: if_splits option.splits)
qed

section \<open>Properties of the whole program\<close>

text \<open>
  C20. A completed run reports statistics computed from exactly the timed
  samples: the warm-up GEMM is made (one more GEMM than samples) and its time
  is discarded, and the verdict is the classifier applied to the utilisation.
\<close>

theorem main_completed_stats:
  assumes "main w argv = Some (Completed r)"
  shows "gemm_calls (res_machine r) = Suc (length (latencies (res_machine r))) \<and>
         rep_stats (res_report r) = compute_stats (rep_N (res_report r)) (latencies (res_machine r)) \<and>
         rep_verdict (res_report r) = diagnose (utilization (stat_rates (rep_stats (res_report r))))"
proof -
  obtain cfg m1 where "setup_phase w argv = Inr cfg"
    and "warm_up w (cfg_N cfg) machine0 = Inr m1"
    and "measure_phase w (cfg_N cfg) (cfg_duration cfg) m1 = Some (Inr (res_machine r))"
    and "rep_N (res_report r) = cfg_N cfg"
    and "rep_stats (res_report r) = compute_stats (cfg_N cfg) (latencies (res_machine r))"
    and "rep_verdict (res_report r) = diagnose (utilization (stat_rates (rep_stats (res_report r))))"
    using assms by (rule main_completed_run)
  then show ?thesis by (auto simp: machine0_def dest!: warm_up_Inr measure_phase_gemm_count)
qed

theorem main_completed_stats_witness:
  "\<exists>r. main ok_world [''gemm'', ''0'', ''2''] = Some (Completed r) \<and>
       gemm_calls (res_machine r) = 2 \<and> rep_stats (res_report r) = compute_stats 0 [1]"
proof -
  obtain r where run: "main ok_world [''gemm'', ''0'', ''2''] = Some (Completed r)"
    and facts: "rep_N (res_report r) = 0" "latencies (res_machine r) = [1]"
    using ok_world_zero_dim by blast
  from main_completed_stats [OF run] facts have
    "gemm_calls (res_machine r) = 2 \<and> rep_stats (res_report r) = compute_stats 0 [1]"
    by simp
  with run show ?thesis by blast
qed

text \<open>
  C19. The setup fails fast, in source order: for a device count the CUDA
  runtime can report (not negative), the setup's result is the error of the
  first of the checked calls of lines 43, 48, 49, 50, 54, 55 and 56 that does
  not succeed, with its status and the line of its check, and only when all
  succeed does it reach the initialisation loop; \<open>main\<close> then aborts with
  exactly that error. A dropped or reordered check falsifies it.
\<close>

theorem setup_fails_fast:
  assumes pa: "parse_args argv = (N, dur)" and dc: "device_count w = (st, nd)" and nd: "0 \<le> nd"
  shows "setup_phase w argv =
           (case first_failure (setup_checks w N nd) of
              Some e \<Rightarrow> Inl e
            | None \<Rightarrow>
                (case init_inputs (omp_rank w) (elem_count N)
                        (pinned_buffer (host_garbage w 0) (size_bytes N),
                         pinned_buffer (host_garbage w 1) (size_bytes N)) of
                   None \<Rightarrow> Inl (Memory_Fault 60)
                 | Some (a, b) \<Rightarrow>
                     Inr \<lparr>cfg_N = N, cfg_duration = dur, cfg_devices = nd, cfg_h_A = a, cfg_h_B = b\<rparr>)) \<and>
         (\<forall>e. first_failure (setup_checks w N nd) = Some e \<longrightarrow> main w argv = Some (Aborted e))"
proof -
  have sp: "setup_phase w argv =
           (case first_failure (setup_checks w N nd) of
              Some e \<Rightarrow> Inl e
            | None \<Rightarrow>
                (case init_inputs (omp_rank w) (elem_count N)
                        (pinned_buffer (host_garbage w 0) (size_bytes N),
                         pinned_buffer (host_garbage w 1) (size_bytes N)) of
                   None \<Rightarrow> Inl (Memory_Fault 60)
                 | Some (a, b) \<Rightarrow>
                     Inr \<lparr>cfg_N = N, cfg_duration = dur, cfg_devices = nd, cfg_h_A = a, cfg_h_B = b\<rparr>))"
    using nd by (simp add: setup_phase_def setup_checks_def pa dc check_cuda_def check_cublas_def Let_def)
  then show ?thesis by (simp add: main_def)
qed

theorem setup_fails_fast_witness:
  "parse_args [''gemm'', ''1'', ''1''] = (1, 1) \<and>
   device_count (ok_world\<lparr>device_select := \<lambda>_ _. 7\<rparr>) = (0, 2) \<and> (0::int) \<le> 2 \<and>
   first_failure (setup_checks (ok_world\<lparr>device_select := \<lambda>_ _. 7\<rparr>) 1 2) = Some (Cublas_Error 7 49) \<and>
   main (ok_world\<lparr>device_select := \<lambda>_ _. 7\<rparr>) [''gemm'', ''1'', ''1''] = Some (Aborted (Cublas_Error 7 49))"
proof -
  have pa: "parse_args [''gemm'', ''1'', ''1''] = (1, 1)" by (simp add: main_eval_simps)
  have dc: "device_count (ok_world\<lparr>device_select := \<lambda>_ _. 7\<rparr>) = (0, 2)" by (simp add: ok_world_def)
  have ff: "first_failure (setup_checks (ok_world\<lparr>device_select := \<lambda>_ _. 7\<rparr>) 1 2) = Some (Cublas_Error 7 49)"
    by (simp add: setup_checks_def ok_world_def)
  show ?thesis using setup_fails_fast [OF pa dc] pa dc ff by simp
qed

text \<open>
  C21. No argument is validated (the spec asks for a configuration error
  before any device interaction): when every library call succeeds and the
  clock is sound, \<open>main\<close> completes a report for every command line whose
  dimension is not \<open>INT_MIN\<close>, including a zero or negative dimension and a
  zero or negative duration.
\<close>

theorem main_accepts_unvalidated_arguments:
  assumes ok: "calls_succeed w" and mono: "clock_mono w" and unb: "clock_unbounded w"
    and notmin: "fst (parse_args argv) \<noteq> - (2 ^ 31)"
  shows "\<exists>r. main w argv = Some (Completed r) \<and> rep_N (res_report r) = fst (parse_args argv)"
proof -
  obtain N d where pa: "parse_args argv = (N, d)" by fastforce
  obtain st nd where dc: "device_count w = (st, nd)" by fastforce
  from ok dc have st: "st = 0" and nd: "0 \<le> nd" by (simp_all add: calls_succeed_def)
  from parse_args_range [OF pa] notmin pa have lo: "- (2 ^ 31) < N" and hi: "N < 2 ^ 31" by auto
  have init: "init_inputs (omp_rank w) (elem_count N)
      (pinned_buffer (host_garbage w 0) (size_bytes N), pinned_buffer (host_garbage w 1) (size_bytes N)) =
      Some (replicate (nat (N * N)) 1, replicate (nat (N * N)) 0.5)"
    using lo hi by (simp add: init_inputs_def fold_init_step_Some overwrite_all pinned_buffer_def
      unat_elem_count unat_size_bytes)
  have sp: "setup_phase w argv =
      Inr \<lparr>cfg_N = N, cfg_duration = d, cfg_devices = nd,
           cfg_h_A = replicate (nat (N * N)) 1, cfg_h_B = replicate (nat (N * N)) 0.5\<rparr>"
    using ok nd init by (simp add: setup_phase_def pa dc st calls_succeed_def Let_def)
  obtain m1 where warm: "warm_up w N machine0 = Inr m1"
    using ok by (simp add: warm_up_def call_simps calls_succeed_def)
  obtain res where mp: "measure_phase w N d m1 = Some res"
    using measure_phase_returns [OF mono unb] by blast
  obtain m2 where res: "res = Inr m2"
  proof (cases res)
    case (Inl e)
    with mp ok show ?thesis by (auto simp: calls_succeed_def dest: measure_phase_Inl)
  next
    case (Inr m2)
    then show ?thesis by (rule that)
  qed
  show ?thesis using sp warm mp res pa by (simp add: main_def Let_def)
qed

theorem main_accepts_unvalidated_arguments_witness:
  "calls_succeed ok_world \<and> clock_mono ok_world \<and> clock_unbounded ok_world \<and>
   fst (parse_args [''gemm'', ''0'', ''0'']) \<noteq> - (2 ^ 31) \<and>
   (\<exists>r. main ok_world [''gemm'', ''0'', ''0''] = Some (Completed r) \<and> rep_N (res_report r) = 0)"
proof -
  have ok: "calls_succeed ok_world" by (simp add: calls_succeed_def ok_world_def)
  have pa: "parse_args [''gemm'', ''0'', ''0''] = (0, 0)" by (simp add: main_eval_simps)
  show ?thesis
    using main_accepts_unvalidated_arguments [OF ok ok_world_mono ok_world_unbounded, of "[''gemm'', ''0'', ''0'']"]
      ok ok_world_mono ok_world_unbounded pa by simp
qed

end
