(* ===== verification/Report.thy ===== *)
theory Report
  imports Benchmark
begin

text \<open>
  What the program writes to standard output. The report of lines 90--113
  prints \<open>N\<close> and the device count with \<open>%d\<close> and the mean time, the data rate,
  the utilisation and the compute rate with \<open>%.4f\<close>, \<open>%.2f\<close>, \<open>%.1f\<close> and
  \<open>%.2f\<close>; the label of lines 107--112 follows \<open>utilization > 85.0\<close>.
  Each \<open>printf\<close> is one \<open>out_item\<close>; its fixed text (emoji and Chinese
  captions) is the constructor, its converted arguments are the strings.
\<close>

text \<open>
  \<open>%.Pf\<close> as glibc prints it: the exact value, rounded to \<open>P\<close> decimals to
  nearest with ties to even, a minus sign for every negative value (also when it
  rounds to zero), at least one integer digit, and \<open>P\<close> fraction digits after a
  point (none when \<open>P = 0\<close>). Infinities print as \<open>inf\<close> and \<open>-inf\<close>, NaN as
  \<open>nan\<close> or \<open>-nan\<close> after its sign bit; \<open>0.0 / 0\<close> gives the NaN with the sign
  bit set on x86-64 (the default NaN of SSE) and clear on AArch64, which the
  parameter \<open>nan_neg\<close> selects. The model formats the exact real the metric code
  computes, not its rounding to a \<open>double\<close>.
\<close>

definition round_half_even :: "real \<Rightarrow> int" where
  "round_half_even x =
     (let n = \<lfloor>x\<rfloor>; f = x - of_int n
      in if f < 1/2 then n else if 1/2 < f then n + 1 else if even n then n else n + 1)"

definition zero_pad :: "nat \<Rightarrow> string \<Rightarrow> string" where
  "zero_pad p s = replicate (p - length s) (CHR ''0'') @ s"

definition fmt_fixed :: "nat \<Rightarrow> real \<Rightarrow> string" where
  "fmt_fixed p x =
     (let q = nat (round_half_even (\<bar>x\<bar> * 10 ^ p))
      in (if x < 0 then ''-'' else []) @ nat_to_dec (q div 10 ^ p) @
         (if p = 0 then [] else CHR ''.'' # zero_pad p (nat_to_dec (q mod 10 ^ p))))"

definition fmt_double :: "bool \<Rightarrow> nat \<Rightarrow> dbl \<Rightarrow> string" where
  "fmt_double nan_neg p x =
     (case x of
        Num r \<Rightarrow> fmt_fixed p r
      | PInf \<Rightarrow> ''inf''
      | NInf \<Rightarrow> ''-inf''
      | NaN \<Rightarrow> if nan_neg then ''-nan'' else ''nan'')"

datatype out_item =
    Warmup_Banner
  | Report_Title
  | Size_Item string string
  | Rule_Item
  | Devices_Item string
  | Time_Item string
  | Throughput_Item string
  | Utilization_Item string
  | Compute_Item string
  | Diagnosis_Prefix
  | IO_Bound_Label
  | Compute_Bound_Label
  | Report_Footer
  | Cuda_Error_Item int nat
  | Cublas_Error_Item int nat

text \<open>Lines 90--113.\<close>

definition emit_report :: "bool \<Rightarrow> report \<Rightarrow> out_item list" where
  "emit_report nan_neg rep =
     (let st = rep_stats rep; rt = stat_rates st
      in [Report_Title,
          Size_Item (int_to_dec (rep_N rep)) (int_to_dec (rep_N rep)),
          Rule_Item,
          Devices_Item (int_to_dec (rep_devices rep)),
          Rule_Item,
          Time_Item (fmt_double nan_neg 4 (time_per_calc st)),
          Throughput_Item (fmt_double nan_neg 2 (throughput_gbs rt)),
          Utilization_Item (fmt_double nan_neg 1 (utilization rt)),
          Compute_Item (fmt_double nan_neg 2 (compute_tflops rt)),
          Rule_Item,
          Diagnosis_Prefix,
          if d_gt (utilization rt) (Num 85) then IO_Bound_Label else Compute_Bound_Label,
          Report_Footer])"

text \<open>
  The whole standard output of a run. The warm-up banner of line 64 comes after
  every \<open>CHECK_CUDA\<close> (lines 43--56) and before the \<open>CHECK_CUBLAS\<close> of lines 65
  and 72, so the line of the failing check says whether it was printed. A
  failing check prints its status and line, and \<open>exit\<close> flushes the stream.
  After the uncaught \<open>std::length_error\<close> nothing has been printed; after the
  store out of bounds the behaviour is undefined and no output is modelled.
\<close>

definition program_output :: "bool \<Rightarrow> outcome \<Rightarrow> out_item list" where
  "program_output nan_neg out =
     (case out of
        Completed r \<Rightarrow> Warmup_Banner # emit_report nan_neg (res_report r)
      | Aborted (Cuda_Error s l) \<Rightarrow> [Cuda_Error_Item s l]
      | Aborted (Cublas_Error s l) \<Rightarrow> (if 64 < l then [Warmup_Banner] else []) @ [Cublas_Error_Item s l]
      | Aborted (Length_Error _) \<Rightarrow> []
      | Aborted (Memory_Fault _) \<Rightarrow> [])"

section \<open>Rounding\<close>

lemma round_half_even_850:
  assumes "8495 / 10 \<le> y" and "y \<le> 8505 / 10"
  shows "round_half_even y = 850"
proof -
  have "\<lfloor>y\<rfloor> = 849 \<or> \<lfloor>y\<rfloor> = 850" using assms by linarith
  then show ?thesis using assms unfolding round_half_even_def Let_def by auto
qed

section \<open>Properties of the report\<close>

text \<open>
  C25. The task size line of a completed run prints \<open>N\<close> as it was parsed from
  the command line, and the printed text reads back with \<open>atoi\<close> to the same
  \<open>N\<close>: the \<open>%d\<close> conversion of line 91 is exact for every C \<open>int\<close>.
\<close>

theorem printed_size_roundtrip:
  assumes "main w argv = Some (Completed r)"
  shows "\<exists>s. Size_Item s s \<in> set (program_output b (Completed r)) \<and>
             atoi s = rep_N (res_report r) \<and> rep_N (res_report r) = fst (parse_args argv)"
proof -
  obtain cfg where "setup_phase w argv = Inr cfg" and n: "rep_N (res_report r) = cfg_N cfg"
    using main_completed_setup [OF assms] by blast
  then have pa: "parse_args argv = (rep_N (res_report r), cfg_duration cfg)"
    by (simp add: setup_phase_Inr_args)
  then have "atoi (int_to_dec (rep_N (res_report r))) = rep_N (res_report r)"
    using parse_args_range [OF pa] by (simp add: atoi_int_to_dec)
  with pa show ?thesis
    by (intro exI [of _ "int_to_dec (rep_N (res_report r))"])
      (simp add: program_output_def emit_report_def Let_def)
qed

theorem printed_size_roundtrip_witness:
  "\<exists>r. main ok_world [''gemm'', ''0'', ''2''] = Some (Completed r) \<and>
       (\<exists>s. Size_Item s s \<in> set (program_output True (Completed r)) \<and>
            atoi s = rep_N (res_report r) \<and> rep_N (res_report r) = 0)"
proof -
  obtain r where run: "main ok_world [''gemm'', ''0'', ''2''] = Some (Completed r)"
    using ok_world_zero_dim by blast
  have "parse_args [''gemm'', ''0'', ''2''] = (0, 2)" by (simp add: main_eval_simps)
  with printed_size_roundtrip [OF run, of True] run show ?thesis by auto
qed

text \<open>
  C26. The utilisation is printed with one decimal but classified unrounded:
  every utilisation in \<open>[84.95, 85.05]\<close> prints as \<open>85.0\<close>, and the label
  under it is I/O bound exactly when the hidden value exceeds 85. A reader sees
  \<open>85.0%\<close> under both labels.
\<close>

theorem util_display_hides_threshold:
  assumes "8495 / 100 \<le> u" and "u \<le> 8505 / 100"
    and "utilization (stat_rates (rep_stats rep)) = Num u"
  shows "Utilization_Item ''85.0'' \<in> set (emit_report b rep) \<and>
         (IO_Bound_Label \<in> set (emit_report b rep) \<longleftrightarrow> 85 < u)"
proof -
  have "round_half_even (\<bar>u\<bar> * 10) = 850"
    using assms(1,2) by (intro round_half_even_850) simp_all
  moreover have "\<not> u < 0" using assms(1) by simp
  ultimately have "fmt_fixed 1 u = ''85.0''"
    by (simp add: fmt_fixed_def zero_pad_def nat_to_dec.simps char_of_def bit_iff_odd)
  with assms(3) show ?thesis by (simp add: emit_report_def fmt_double_def Let_def d_gt_def)
qed

theorem util_display_hides_threshold_witness:
  "8495 / 100 \<le> (85.04 :: real) \<and> (85.04 :: real) \<le> 8505 / 100 \<and>
   utilization (stat_rates (rep_stats \<lparr>rep_N = 1024, rep_devices = 2,
      rep_stats = compute_stats 1024 [300 / (256 * 31.5 * 85.04)], rep_verdict = IO_Bound\<rparr>)) = Num 85.04 \<and>
   Utilization_Item ''85.0'' \<in> set (emit_report True \<lparr>rep_N = 1024, rep_devices = 2,
      rep_stats = compute_stats 1024 [300 / (256 * 31.5 * 85.04)], rep_verdict = IO_Bound\<rparr>) \<and>
   IO_Bound_Label \<in> set (emit_report True \<lparr>rep_N = 1024, rep_devices = 2,
      rep_stats = compute_stats 1024 [300 / (256 * 31.5 * 85.04)], rep_verdict = IO_Bound\<rparr>)"
proof -
  have u: "utilization (stat_rates (rep_stats \<lparr>rep_N = 1024, rep_devices = 2,
      rep_stats = compute_stats 1024 [300 / (256 * 31.5 * 85.04)], rep_verdict = IO_Bound\<rparr>)) = Num 85.04"
    by (simp add: compute_stats_mean derive_rates_Num data_moved_real_def)
  show ?thesis using util_display_hides_threshold [OF _ _ u] u by simp
qed

text \<open>
  C27. A completed run without samples prints NaN for the mean time, the data
  rate, the utilisation and the compute rate (\<open>-nan\<close> where \<open>0.0 / 0\<close> sets
  the sign bit, as on x86-64), and labels the run compute bound.
\<close>

theorem empty_run_prints_nan:
  assumes "main w argv = Some (Completed r)" and "latencies (res_machine r) = []"
  shows "{Time_Item (if b then ''-nan'' else ''nan''), Throughput_Item (if b then ''-nan'' else ''nan''),
          Utilization_Item (if b then ''-nan'' else ''nan''), Compute_Item (if b then ''-nan'' else ''nan''),
          Compute_Bound_Label} \<subseteq> set (program_output b (Completed r)) \<and>
         IO_Bound_Label \<notin> set (program_output b (Completed r))"
proof -
  obtain cfg m1 where "setup_phase w argv = Inr cfg"
    and "warm_up w (cfg_N cfg) machine0 = Inr m1"
    and "measure_phase w (cfg_N cfg) (cfg_duration cfg) m1 = Some (Inr (res_machine r))"
    and "rep_N (res_report r) = cfg_N cfg"
    and st: "rep_stats (res_report r) = compute_stats (cfg_N cfg) (latencies (res_machine r))"
    and "rep_verdict (res_report r) = diagnose (utilization (stat_rates (rep_stats (res_report r))))"
    using assms(1) by (rule main_completed_run)
  with assms(2) show ?thesis
    by (simp add: program_output_def emit_report_def fmt_double_def Let_def compute_stats_def
        derive_rates_def d_of_int_def c_int_of_nat_def pcie_ref_def dbl_simps)
qed

theorem empty_run_prints_nan_witness:
  "\<exists>r. main ok_world [''gemm'', ''0'', ''0''] = Some (Completed r) \<and> latencies (res_machine r) = [] \<and>
       Time_Item ''-nan'' \<in> set (program_output True (Completed r))"
proof -
  have "\<exists>r. main ok_world [''gemm'', ''0'', ''0''] = Some (Completed r) \<and> latencies (res_machine r) = []"
    by (simp add: main_eval_simps)
  then obtain r where run: "main ok_world [''gemm'', ''0'', ''0''] = Some (Completed r)"
    and lat: "latencies (res_machine r) = []" by blast
  with empty_run_prints_nan [OF run lat, of True] show ?thesis by auto
qed

end
