(* ===== verification/Spec2Isabelle.thy ===== *)
theory Spec2Isabelle
  imports Report
begin

text \<open>
  Verification of the multi-GPU GEMM acceptance benchmark
  \<open>src/v20/dmxperf/src/cpp/multi_gpu_gemm.cpp\<close> (one C++ \<open>main\<close>, 117 lines).

  \<^bold>\<open>The program.\<close> \<open>main\<close> reads the matrix dimension \<open>N\<close> and a duration from
  the command line (\<open>atoi\<close>, defaults 16384 and 10), enumerates the CUDA
  devices, creates a cuBLASXt handle over all of them, allocates three pinned
  host buffers of \<open>N*N\<close> floats, fills the inputs with an OpenMP loop, runs
  one warm-up \<open>cublasXtSgemm\<close>, then repeats timed GEMM calls while less than
  \<open>duration\<close> seconds have passed since the start of the measurement, and
  reduces the recorded latencies to a mean, a data rate, a compute rate and
  a bus utilisation against a fixed PCIe 4.0 reference of 31.5 GB/s; a
  utilisation above 85\% is reported as I/O bound. Every CUDA and cuBLAS
  call of the setup and of the loop is wrapped in \<open>CHECK_CUDA\<close> or
  \<open>CHECK_CUBLAS\<close>, which print the status and the line and \<open>exit(-1)\<close>.

  \<^bold>\<open>Theories and what they model.\<close>
  \<^item> \<open>Prelude\<close>: C \<open>int\<close> as \<open>32 word\<close> and \<open>size_t\<close> as \<open>64 word\<close> with the
    conversions the code performs (\<open>c_int_of_int\<close>, \<open>c_int_of_nat\<close>,
    \<open>size_t_of_int\<close>, each keeping the low bits), and the error monad
    \<open>ebind\<close> over \<open>fatal + 'a\<close>.
  \<^item> \<open>Double\<close>: C \<open>double\<close> as exact reals extended by \<open>+\<infinity>\<close>, \<open>-\<infinity>\<close> and
    NaN with the IEEE-754 rules for them (\<open>d_add\<close>, \<open>d_mul\<close>, \<open>d_div\<close>,
    \<open>d_pow\<close>, \<open>d_lt\<close>, \<open>d_gt\<close>). Rounding to 53 bits and the sign of zero are
    not modelled: the theorems are about the exact values the code
    approximates, and none is stated that rounding would falsify beyond a
    tie (a strict inequality between close values can become an equality).
    In particular the order of the summation of line 78 is not modelled: in
    \<open>double\<close> it can change the last bit of the total.
  \<^item> \<open>Metrics\<close>: lines 77--88 (\<open>compute_stats\<close>, \<open>accumulate_latencies\<close>,
    \<open>derive_rates\<close>, \<open>pcie_ref\<close>) and the classifier of lines 106--112
    (\<open>diagnose\<close>). C1--C6, C22: the mean is the arithmetic mean, the rates
    fall with the latency and scale with \<open>N^2\<close> and \<open>N^3\<close>, the threshold is
    strict at 85; a zero mean gives \<open>+\<infinity>\<close>, an empty run NaN classified
    compute bound, and \<open>int iters\<close> wraps negative from \<open>2^31\<close> samples on.
  \<^item> \<open>Clock\<close>: \<open>get_time\<close> (lines 28--32) over a \<open>timeval\<close> record, as the
    exact real \<open>tv_sec + tv_usec * 10^-6\<close>.
  \<^item> \<open>Runtime\<close>: the library boundary. A \<open>world\<close> record holds the answers
    of \<open>gettimeofday\<close>, \<open>cublasXtSgemm\<close> and \<open>cudaDeviceSynchronize\<close> for
    their \<open>k\<close>-th call; a \<open>machine\<close> record counts the calls and holds the
    latency vector. \<open>check_cuda\<close> and \<open>check_cublas\<close> are the macros of
    lines 12--26, returning \<open>Inl\<close> of the status and the line.
    \<open>clock_mono\<close>, \<open>clock_unbounded\<close> and \<open>clock_advances\<close> are the
    assumptions on the clock under which the loop is studied.
  \<^item> \<open>Sampling\<close>: the warm-up (lines 63--66, \<open>warm_up\<close>), one timed iteration
    (lines 71--74, \<open>sample_body\<close>), the loop of line 70 as
    \<open>partial_function (option) sample_loop\<close> (\<open>None\<close>: the loop never ends),
    and \<open>measure_phase\<close> (lines 68--75). \<open>loop_spec\<close> is its abstract
    specification: \<open>k\<close> iterations whose guards pass, then an exit by a
    failing guard or a failing check; C8 proves the loop equal to it. C7:
    under a clock that never goes back and grows without bound the phase
    returns (a termination proof by induction on the distance to the first
    reading past the deadline, not fuel); C9--C13: non-negative samples
    under a monotone clock, no sample for a duration \<open>\<le> 0\<close>, a sample when
    the first guard passes, the discarded \<open>cudaDeviceSynchronize\<close> status, and
    a stopped clock that never leaves the loop; C24: with readings at least
    \<open>\<delta> > 0\<close> apart the phase returns with fewer than about
    \<open>duration / 3\<delta>\<close> samples.
  \<^item> \<open>Config\<close>: lines 35--38 with glibc's \<open>atoi\<close> (\<open>strtol\<close> in base 10,
    saturating at the 64-bit bounds, then truncated to \<open>int\<close>). C14: the
    decimal round trip for values in \<open>int\<close>.
  \<^item> \<open>HostBuffers\<close>: the buffer size \<open>(size_t)N*N*sizeof(float)\<close> in 64-bit
    wrap-around arithmetic, the pinned buffers, and the OpenMP fill of lines
    58--61 under an arbitrary schedule (\<open>omp_order\<close>). C15--C18: the exact
    size for \<open>|N| < 2^31\<close>, the heap overflow for \<open>N = INT_MIN\<close>, the same
    result under every schedule, and no store out of bounds otherwise.
  \<^item> \<open>Benchmark\<close>: the setup of lines 35--61 (\<open>setup_phase\<close>, every check at
    its line, the uncaught \<open>std::length_error\<close> of line 44 for a negative
    device count, the out-of-bounds store of line 60) and \<open>main\<close>, over a
    \<open>host_world\<close> that adds the setup calls' answers, and \<open>exit_status\<close>,
    how the process ends. \<open>setup_checks\<close> and \<open>first_failure\<close> state the
    fail-fast contract apart from the code. C19--C21: the setup aborts at
    the first failing call in source order; a completed report is computed
    from its samples with the warm-up made and not timed; no argument is
    validated.
  \<^item> \<open>Report\<close>: the standard output. Each \<open>printf\<close> of lines 64 and 90--113
    is an \<open>out_item\<close> whose fixed text is the constructor and whose
    converted arguments are strings: \<open>%d\<close> is \<open>int_to_dec\<close>, \<open>%.Pf\<close> is
    \<open>fmt_fixed\<close> (glibc's rounding to nearest, ties to even, on the exact
    value; \<open>inf\<close>, \<open>nan\<close>, and \<open>-nan\<close> for a NaN with its sign bit set,
    a platform parameter). \<open>emit_report\<close> is lines 90--113,
    \<open>program_output\<close> the whole output of an outcome. C25--C27: the printed
    \<open>N\<close> reads back with \<open>atoi\<close>, \<open>85.0\<close> is printed under both labels, and
    an empty run prints NaN everywhere with a compute-bound label.
  \<^item> This theory: C23, under a monotone clock a completed report's samples
    and mean are not negative.

  \<^bold>\<open>Worlds and fuel.\<close> The libraries are inputs: each claim is stated for
  every world, and the fixtures \<open>tick_world\<close>, \<open>frozen_world\<close> and
  \<open>ok_world\<close> only serve the witnesses. No fuel is used: the loop is a
  \<open>partial_function (option)\<close>, and C7 and C24 prove that it returns.

  \<^bold>\<open>Not modelled.\<close> The captions of the report (emoji and Chinese
  text, which the \<open>out_item\<close> constructors stand for), the text
  \<open>cudaGetErrorString\<close> returns, floating-point rounding (of the metrics,
  of the sum of line 78, of \<open>get_time\<close>, before printing), the teardown of
  lines 115--116 (unchecked, no effect on the outcome), the numerical result
  of the GEMM (the benchmark never reads it), and the CUDA and cuBLAS
  libraries themselves, whose answers are inputs of the model.
\<close>

section \<open>Properties across components\<close>

text \<open>
  C23. When the clock never goes back, every sample of a completed run is
  non-negative and the reported mean time per call is not negative (it is
  NaN for a run without samples), as long as the sample count fits in
  \<open>int\<close>.
\<close>

theorem monotone_clock_report_nonneg:
  assumes mono: "clock_mono w" and run: "main w argv = Some (Completed r)"
    and few: "length (latencies (res_machine r)) < 2 ^ 31"
  shows "list_all (\<lambda>x. 0 \<le> x) (latencies (res_machine r)) \<and>
         \<not> d_lt (time_per_calc (rep_stats (res_report r))) (Num 0)"
proof -
  obtain cfg m1 where "setup_phase w argv = Inr cfg"
    and "warm_up w (cfg_N cfg) machine0 = Inr m1"
    and mp: "measure_phase w (cfg_N cfg) (cfg_duration cfg) m1 = Some (Inr (res_machine r))"
    and "rep_N (res_report r) = cfg_N cfg"
    and st: "rep_stats (res_report r) = compute_stats (cfg_N cfg) (latencies (res_machine r))"
    and "rep_verdict (res_report r) = diagnose (utilization (stat_rates (rep_stats (res_report r))))"
    using run by (rule main_completed_run)
  obtain k where "latencies (res_machine r) = loop_samples w (Suc (clock_reads m1)) k"
    using mp by (rule measure_phase_latencies)
  then have nonneg: "list_all (\<lambda>x. 0 \<le> x) (latencies (res_machine r))"
    using loop_samples_nonneg [OF mono] by (simp add: list_all_iff)
  have "\<not> d_lt (time_per_calc (compute_stats (cfg_N cfg) (latencies (res_machine r)))) (Num 0)"
  proof (cases "latencies (res_machine r) = []")
    case True
    then show ?thesis by (simp add: compute_stats_def c_int_of_nat_def d_of_int_def)
  next
    case False
    have "0 \<le> sum_list (latencies (res_machine r))"
      using nonneg by (simp add: list_all_iff sum_list_nonneg)
    then show ?thesis using False few by (simp add: compute_stats_mean not_less)
  qed
  with nonneg st show ?thesis by simp
qed

theorem monotone_clock_report_nonneg_witness:
  "\<exists>r. clock_mono ok_world \<and> main ok_world [''gemm'', ''0'', ''2''] = Some (Completed r) \<and>
       length (latencies (res_machine r)) < 2 ^ 31 \<and>
       list_all (\<lambda>x. 0 \<le> x) (latencies (res_machine r)) \<and>
       \<not> d_lt (time_per_calc (rep_stats (res_report r))) (Num 0)"
proof -
  obtain r where run: "main ok_world [''gemm'', ''0'', ''2''] = Some (Completed r)"
    and lat: "latencies (res_machine r) = [1]"
    using ok_world_zero_dim by blast
  have "length (latencies (res_machine r)) < 2 ^ 31" using lat by simp
  with monotone_clock_report_nonneg [OF ok_world_mono run] run ok_world_mono show ?thesis by blast
qed
end
